theory Spec2Isabelle
  imports Main "HOL-Library.Sublist"
begin

section \<open>Python strings\<close>

text \<open>
  A Python \<open>str\<close> is modelled as a \<open>string\<close>: a list of characters with code points
  0..255 (Latin-1), so \<open>length\<close> is Python's \<open>len\<close> on such a string.
  The functions below are the \<open>str\<close> methods the program calls.
\<close>

definition is_space :: "char \<Rightarrow> bool" where
  \<comment> \<open>\<open>str.isspace\<close> on one character; the same class is \<open>\s\<close> of \<open>re\<close> on a \<open>str\<close> pattern.\<close>
  "is_space c =
     (let n = (of_char c :: nat)
      in (9 \<le> n \<and> n \<le> 13) \<or> (28 \<le> n \<and> n \<le> 32) \<or> n = 133 \<or> n = 160)"

definition lstrip :: "string \<Rightarrow> string" where
  "lstrip s = dropWhile is_space s"

definition rstrip :: "string \<Rightarrow> string" where
  "rstrip s = rev (dropWhile is_space (rev s))"

definition strip :: "string \<Rightarrow> string" where
  "strip s = lstrip (rstrip s)"

definition lower_char :: "char \<Rightarrow> char" where
  "lower_char c =
     (let n = (of_char c :: nat)
      in if (65 \<le> n \<and> n \<le> 90) \<or> (192 \<le> n \<and> n \<le> 222 \<and> n \<noteq> 215)
         then char_of (n + 32) else c)"

definition lower :: "string \<Rightarrow> string" where
  "lower s = map lower_char s"

fun contains :: "string \<Rightarrow> string \<Rightarrow> bool" where
  \<comment> \<open>\<open>contains needle hay\<close> is Python's \<open>needle in hay\<close>.\<close>
  "contains needle [] = (needle = [])"
| "contains needle (c # cs) = (prefix needle (c # cs) \<or> contains needle cs)"

fun split_from :: "(char \<Rightarrow> bool) \<Rightarrow> string \<Rightarrow> string \<Rightarrow> string list" where
  \<comment> \<open>The maximal runs of characters that are not separators; the run being read is the
      second argument.\<close>
  "split_from sep w [] = (if w = [] then [] else [w])"
| "split_from sep w (c # cs) =
     (if sep c then (if w = [] then split_from sep [] cs else w # split_from sep [] cs)
      else split_from sep (w @ [c]) cs)"

definition split :: "string \<Rightarrow> string list" where
  \<comment> \<open>\<open>str.split()\<close>\<close>
  "split s = split_from is_space [] s"

fun split_on :: "char \<Rightarrow> string \<Rightarrow> string list" where
  \<comment> \<open>\<open>s.split(d)\<close> for a one-character separator \<open>d\<close>.\<close>
  "split_on d [] = [[]]"
| "split_on d (c # cs) =
     (if c = d then [] # split_on d cs
      else (case split_on d cs of [] \<Rightarrow> [[c]] | w # ws \<Rightarrow> (c # w) # ws))"

fun join :: "string \<Rightarrow> string list \<Rightarrow> string" where
  "join sep [] = []"
| "join sep [x] = x"
| "join sep (x # y # ys) = x @ sep @ join sep (y # ys)"

definition digit_char :: "nat \<Rightarrow> char" where
  "digit_char d = char_of (48 + d)"

function str_nat :: "nat \<Rightarrow> string" where
  "str_nat n = (if n < 10 then [digit_char n] else str_nat (n div 10) @ [digit_char (n mod 10)])"
  by pat_completeness auto
termination
  by (relation "measure id") auto

declare str_nat.simps [simp del]

definition str_int :: "int \<Rightarrow> string" where
  \<comment> \<open>\<open>str(i)\<close> of a Python \<open>int\<close>.\<close>
  "str_int i = (if i < 0 then CHR ''-'' # str_nat (nat (- i)) else str_nat (nat i))"

definition truncate_preview :: "string \<Rightarrow> nat \<Rightarrow> string" where
  \<comment> \<open>\<open>_truncate_preview(data, max_length)\<close>; the default \<open>max_length\<close> is 500.\<close>
  "truncate_preview data max_length =
     (if length data \<le> max_length then data else take max_length data @ ''...'')"

section \<open>Exceptions\<close>

text \<open>
  A raised exception is a value: its class, as far as a handler of the program tells
  classes apart, and the text \<open>str(e)\<close>. Every class listed is a subclass of
  \<open>Exception\<close>. A call that can raise returns \<open>py_exception + 'a\<close>.
\<close>

datatype exc_class = TimeoutExpired | RequestError | OtherException

datatype py_exception = Raised exc_class string

fun exc_str :: "py_exception \<Rightarrow> string" where
  "exc_str (Raised c m) = m"

fun exc_cls :: "py_exception \<Rightarrow> exc_class" where
  "exc_cls (Raised c m) = c"

section \<open>The execution adapter (executor.py)\<close>

text \<open>
  \<open>subprocess.run\<close> with \<open>capture_output\<close> and a timeout either completes, with a return
  code and the two captured streams, or raises: \<open>TimeoutExpired\<close>, or another exception
  (the program or the directory is missing, for example).
\<close>

datatype proc_outcome =
    Completed int string string   \<comment> \<open>returncode, stdout, stderr\<close>
  | ProcRaised py_exception

record execution_result =
  stdout :: string
  stderr :: string
  exit_code :: int

definition run_script_try :: "proc_outcome \<Rightarrow> proc_outcome \<Rightarrow> py_exception + execution_result" where
  \<comment> \<open>The \<open>try\<close> block of \<open>run_script_in_dir\<close>: \<open>install\<close> is what \<open>pip install\<close> does in
      the directory, \<open>script\<close> what \<open>python scraper.py\<close> does there.\<close>
  "run_script_try install script =
     (case install of
        ProcRaised e \<Rightarrow> Inl e
      | Completed install_rc install_out install_err \<Rightarrow>
          if install_rc \<noteq> 0
          then Inl (Raised OtherException
                 (''Failed to install dependencies: '' @
                    strip (install_err @ ''\<newline>'' @ install_out)))
          else (case script of
                  ProcRaised e \<Rightarrow> Inl e
                | Completed rc out err \<Rightarrow>
                    Inr \<lparr>stdout = out, stderr = err, exit_code = rc\<rparr>))"

definition run_script_in_dir :: "proc_outcome \<Rightarrow> proc_outcome \<Rightarrow> py_exception + execution_result" where
  \<comment> \<open>\<open>run_script_in_dir(path)\<close>: the \<open>try\<close> block under its two handlers.\<close>
  "run_script_in_dir install script =
     (case run_script_try install script of
        Inr r \<Rightarrow> Inr r
      | Inl e \<Rightarrow>
          if exc_cls e = TimeoutExpired
          then Inr \<lparr>stdout = [], stderr = ''Script execution timed out after 60 seconds'',
                    exit_code = 1\<rparr>
          else Inr \<lparr>stdout = [], stderr = exc_str e, exit_code = 1\<rparr>)"

section \<open>Documents (bs4) and decoded JSON\<close>

text \<open>
  The program reads HTML through the library \<open>bs4\<close> and JSON through \<open>json\<close>. Their
  objects are modelled as trees. A \<open>Tag\<close> has a name, its attributes in the order of its
  \<open>attrs\<close> dictionary (a multi-valued attribute such as \<open>class\<close> is a list of words) and its
  \<open>contents\<close>; a \<open>Str\<close> is a \<open>NavigableString\<close> (\<open>Text\<close>) or one of its subclasses, the
  class being the one the parser chose. The
  \<open>BeautifulSoup\<close> object itself is the tag named \<open>[document]\<close>, as in the library.
\<close>

datatype attr_value = Single string | Multi "string list"

datatype string_kind =
    Text | CData | Comment | Doctype | Declaration | ProcessingInstruction
  | Script | Stylesheet | TemplateString | RubyTextString | RubyParenthesisString

datatype node =
    Tag string "(string \<times> attr_value) list" "node list"
  | Str string_kind string

text \<open>
  The CSS selectors the program passes to \<open>select\<close> and \<open>select_one\<close>, in abstract syntax:
  a compound selector is a list of simple selectors, and \<open>Child p c\<close> is \<open>p > c\<close>.
  \<^verbatim>\<open>ul\<close> is \<open>Sel [ByTag ''ul'']\<close>, \<^verbatim>\<open>[class*="card"]\<close> is \<open>Sel [AttrContains ''class'' ''card'']\<close>,
  \<^verbatim>\<open>[role="main"]\<close> is \<open>Sel [AttrEq ''role'' ''main'']\<close>, \<^verbatim>\<open>#content\<close> is \<open>Sel [ById ''content'']\<close>,
  \<^verbatim>\<open>.content\<close> is \<open>Sel [ByClass ''content'']\<close>, \<^verbatim>\<open>a[href]\<close> is \<open>Sel [ByTag ''a'', AttrExists ''href'']\<close>
  and \<^verbatim>\<open>div > p\<close> is \<open>Child [ByTag ''div''] [ByTag ''p'']\<close>.
\<close>

datatype simple_selector =
    ByTag string
  | ById string
  | ByClass string
  | AttrEq string string
  | AttrContains string string
  | AttrExists string

datatype selector = Sel "simple_selector list" | Child "simple_selector list" "simple_selector list"

datatype json =
    JNull
  | JBool bool
  | JInt int
  | JFloat string   \<comment> \<open>a \<open>float\<close>, named by its \<open>repr\<close>\<close>
  | JStr string
  | JList "json list"
  | JDict "(string \<times> json) list"

datatype json_outcome =
    Decoded json
  | JSONDecodeError
  | DecodeRaised py_exception   \<comment> \<open>any other exception, \<open>RecursionError\<close> on deep nesting for one\<close>

text \<open>
  What the program takes from the interpreter and its libraries, as parameters of the
  model: the parser \<open>BeautifulSoup(markup, 'html.parser')\<close>, \<open>json.loads\<close>, the order in
  which a \<open>set\<close> of selectors is iterated, given the selectors in the order they were
  added (string hashes, hence this order, change from one interpreter process to the
  next), and \<open>sys.get_int_max_str_digits()\<close> (0 when there is no limit).
\<close>

record runtime =
  html_parser :: "string \<Rightarrow> py_exception + node"
  json_loads :: "string \<Rightarrow> json_outcome"
  set_iter :: "selector list \<Rightarrow> selector list"
  int_max_str_digits :: nat

section \<open>Python's \<open>repr\<close> and \<open>str\<close> of values\<close>

definition hex_digit :: "nat \<Rightarrow> char" where
  "hex_digit d = (if d < 10 then char_of (48 + d) else char_of (87 + d))"

definition repr_char :: "char \<Rightarrow> char \<Rightarrow> string" where
  \<comment> \<open>One character of a \<open>str\<close> inside its \<open>repr\<close>, given the quote in use.\<close>
  "repr_char quote c =
     (let n = (of_char c :: nat) in
      if c = quote \<or> c = CHR 0x5C then [CHR 0x5C, c]
      else if n = 9 then [CHR 0x5C, CHR ''t'']
      else if n = 10 then [CHR 0x5C, CHR ''n'']
      else if n = 13 then [CHR 0x5C, CHR ''r'']
      else if n < 32 \<or> (127 \<le> n \<and> n \<le> 160) \<or> n = 173
      then [CHR 0x5C, CHR ''x'', hex_digit (n div 16), hex_digit (n mod 16)]
      else [c])"

definition repr_str :: "string \<Rightarrow> string" where
  \<comment> \<open>\<open>repr(s)\<close> of a \<open>str\<close>: double quotes only when \<open>s\<close> has a single quote and no
      double quote.\<close>
  "repr_str s =
     (let quote = (if CHR 0x27 \<in> set s \<and> CHR 0x22 \<notin> set s then CHR 0x22 else CHR 0x27)
      in [quote] @ concat (map (repr_char quote) s) @ [quote])"

fun repr_json :: "json \<Rightarrow> string" where
  \<comment> \<open>\<open>repr\<close> of a value that \<open>json.loads\<close> returned.\<close>
  "repr_json JNull = ''None''"
| "repr_json (JBool b) = (if b then ''True'' else ''False'')"
| "repr_json (JInt i) = str_int i"
| "repr_json (JFloat r) = r"
| "repr_json (JStr s) = repr_str s"
| "repr_json (JList xs) = ''['' @ join '', '' (map repr_json xs) @ '']''"
| "repr_json (JDict kvs) =
     ''{'' @ join '', '' (map (\<lambda>(k, v). repr_str k @ '': '' @ repr_json v) kvs) @ ''}''"

definition py_str :: "json \<Rightarrow> string" where
  \<comment> \<open>\<open>str(item)\<close>: a \<open>str\<close> is itself, any other value is written as by \<open>repr\<close>.\<close>
  "py_str j = (case j of JStr s \<Rightarrow> s | _ \<Rightarrow> repr_json j)"

section \<open>The output validator (agent.py)\<close>

record verdict =
  valid :: bool
  feedback :: string

definition is_digit :: "char \<Rightarrow> bool" where
  "is_digit c = (let n = (of_char c :: nat) in 48 \<le> n \<and> n \<le> 57)"

definition first_number :: "string \<Rightarrow> string option" where
  \<comment> \<open>\<open>re.search(r'(\d+)', s)\<close>: the first maximal run of digits, \<open>None\<close> when there is none.\<close>
  "first_number s =
     (case dropWhile (\<lambda>c. \<not> is_digit c) s of
        [] \<Rightarrow> None
      | d # ds \<Rightarrow> Some (takeWhile is_digit (d # ds)))"

definition digits_value :: "string \<Rightarrow> nat" where
  "digits_value ds = foldl (\<lambda>acc c. 10 * acc + (of_char c - 48)) 0 ds"

definition int_of_digits :: "runtime \<Rightarrow> string \<Rightarrow> py_exception + nat" where
  \<comment> \<open>\<open>int(ds)\<close> on a run of digits; \<open>ValueError\<close> beyond the interpreter's digit limit.\<close>
  "int_of_digits rt ds =
     (if 0 < int_max_str_digits rt \<and> int_max_str_digits rt < length ds
      then Inl (Raised OtherException
             (''Exceeds the limit ('' @ str_nat (int_max_str_digits rt) @
              '' digits) for integer string conversion: value has '' @ str_nat (length ds) @
              '' digits; use sys.set_int_max_str_digits() to increase the limit''))
      else Inr (digits_value ds))"

function bit_length :: "nat \<Rightarrow> nat" where
  "bit_length n = (if n = 0 then 0 else Suc (bit_length (n div 2)))"
  by pat_completeness auto
termination
  by (relation "measure id") auto

declare bit_length.simps [simp del]

definition float_of_nat :: "nat \<Rightarrow> py_exception + nat" where
  \<comment> \<open>\<open>float(n)\<close> for \<open>n \<ge> 0\<close>: the value of the double nearest to \<open>n\<close>, ties to even
      (an integer itself as soon as \<open>n\<close> has more than 53 bits), \<open>OverflowError\<close> when it
      is beyond the largest double.\<close>
  "float_of_nat n =
     (let b = bit_length n in
      if b \<le> 53 then Inr n
      else
        let s = b - 53; q = n div 2 ^ s; r = n mod 2 ^ s; h = 2 ^ (s - 1);
            m = (if h < r \<or> (r = h \<and> odd q) then q + 1 else q)
        in if 2 ^ 1024 \<le> m * 2 ^ s
           then Inl (Raised OtherException ''int too large to convert to float'')
           else Inr (m * 2 ^ s))"

definition less_than_half :: "nat \<Rightarrow> nat \<Rightarrow> py_exception + bool" where
  \<comment> \<open>\<open>item_count < requested_count * 0.5\<close>: the product converts \<open>requested_count\<close> to a
      double and halves it exactly; Python compares an \<open>int\<close> with a \<open>float\<close> exactly.\<close>
  "less_than_half item_count requested_count =
     (case float_of_nat requested_count of
        Inl e \<Rightarrow> Inl e
      | Inr f \<Rightarrow> Inr (2 * item_count < f))"

definition count_check :: "runtime \<Rightarrow> nat \<Rightarrow> string \<Rightarrow> py_exception + verdict option" where
  \<comment> \<open>The block under \<open>number_match\<close>: a verdict when it returns one, \<open>None\<close> when it
      falls through.\<close>
  "count_check rt item_count user_prompt =
     (case first_number user_prompt of
        None \<Rightarrow> Inr None
      | Some ds \<Rightarrow>
          (case int_of_digits rt ds of
             Inl e \<Rightarrow> Inl e
           | Inr requested_count \<Rightarrow>
               if item_count = 0
               then Inr (Some \<lparr>valid = False,
                      feedback = ''No items were found. Expected '' @ str_nat requested_count @
                        '' items. The website structure might have changed or the selectors need adjustment.''\<rparr>)
               else (case less_than_half item_count requested_count of
                       Inl e \<Rightarrow> Inl e
                     | Inr True \<Rightarrow>
                         Inr (Some \<lparr>valid = False,
                           feedback = ''Only found '' @ str_nat item_count @ '' items, but '' @
                             str_nat requested_count @
                             '' were requested. The scraper may need better selectors.''\<rparr>)
                     | Inr False \<Rightarrow> Inr None)))"

definition wants_images :: "string \<Rightarrow> bool" where
  "wants_images user_prompt =
     (\<exists>keyword \<in> set [''image'', ''picture'', ''photo'', ''img''].
        contains keyword (lower user_prompt))"

definition has_urls :: "json list \<Rightarrow> bool" where
  "has_urls data =
     (\<exists>item \<in> set (take 3 data).
        contains ''url'' (lower (py_str item)) \<or> contains ''http'' (py_str item))"

definition validate_list :: "runtime \<Rightarrow> json list \<Rightarrow> string \<Rightarrow> py_exception + verdict" where
  \<comment> \<open>The branch \<open>isinstance(data, list)\<close>.\<close>
  "validate_list rt data user_prompt =
     (let item_count = length data in
      if item_count = 0
      then Inr \<lparr>valid = False,
             feedback = ''The scraper returned an empty list. This could mean the CSS selectors are wrong or the data is loaded dynamically. Please try again.''\<rparr>
      else (case count_check rt item_count user_prompt of
              Inl e \<Rightarrow> Inl e
            | Inr (Some v) \<Rightarrow> Inr v
            | Inr None \<Rightarrow>
                if wants_images user_prompt \<and> 0 < item_count \<and> \<not> has_urls data
                then Inr \<lparr>valid = False,
                       feedback = ''Found data but no URLs detected. For image scraping, expected to find image URLs.''\<rparr>
                else Inr \<lparr>valid = True,
                       feedback = ''Successfully extracted '' @ str_nat item_count @ '' items''\<rparr>))"

definition generic_verdict :: verdict where
  "generic_verdict =
     \<lparr>valid = False, feedback = ''The scraper output doesn't appear to contain structured data''\<rparr>"

definition validate_try :: "runtime \<Rightarrow> string \<Rightarrow> string \<Rightarrow> py_exception + verdict" where
  \<comment> \<open>The outer \<open>try\<close> block of \<open>validate_scraper_results\<close>.\<close>
  "validate_try rt out user_prompt =
     (if strip out = []
      then Inr \<lparr>valid = False,
             feedback = ''The scraper produced no output. This usually means no data was found or there was an error.''\<rparr>
      else (case json_loads rt out of
              DecodeRaised e \<Rightarrow> Inl e
            | JSONDecodeError \<Rightarrow>
                (let lines = split_on CHR ''\<newline>'' (strip out) in
                 if 0 < length lines \<and> (\<exists>line \<in> set lines. strip line \<noteq> [])
                 then Inr \<lparr>valid = True,
                        feedback = ''Successfully extracted '' @ str_nat (length lines) @
                          '' lines of data''\<rparr>
                 else Inr generic_verdict)
            | Decoded (JList data) \<Rightarrow> validate_list rt data user_prompt
            | Decoded (JDict data) \<Rightarrow>
                if data = []
                then Inr \<lparr>valid = False,
                       feedback = ''The scraper returned an empty JSON object. The selectors might be incorrect.''\<rparr>
                else Inr \<lparr>valid = True, feedback = ''Successfully extracted structured data''\<rparr>
            | Decoded _ \<Rightarrow> Inr generic_verdict))"

definition validate_scraper_results :: "runtime \<Rightarrow> string \<Rightarrow> string \<Rightarrow> verdict" where
  \<comment> \<open>\<open>validate_scraper_results(stdout, user_prompt)\<close>: the handler turns every exception
      into a verdict, so the model returns the verdict itself.\<close>
  "validate_scraper_results rt out user_prompt =
     (case validate_try rt out user_prompt of
        Inr v \<Rightarrow> v
      | Inl e \<Rightarrow> \<lparr>valid = False, feedback = ''Error validating results: '' @ exc_str e\<rparr>)"

fun is_scalar :: "json \<Rightarrow> bool" where
  \<comment> \<open>A decoded value that is neither a \<open>list\<close> nor a \<open>dict\<close>.\<close>
  "is_scalar (JList xs) = False"
| "is_scalar (JDict kvs) = False"
| "is_scalar j = True"

section \<open>Operations of bs4 and soupsieve\<close>

text \<open>
  Objects of a tree have identity: \<open>element.parent\<close> is the parent of this occurrence.
  An occurrence is a node with the list of its ancestors, the parent first and the
  \<open>BeautifulSoup\<close> object last. Equality of two tags in \<open>bs4\<close> (\<open>Tag.__eq__\<close>, which
  \<open>dict.fromkeys\<close> uses) compares name, attributes and contents, not identity: that is
  equality of nodes.
\<close>

type_synonym located = "node \<times> node list"

fun is_tag :: "node \<Rightarrow> bool" where
  "is_tag (Tag n as cs) = True"
| "is_tag (Str k s) = False"

fun name_of :: "node \<Rightarrow> string" where
  "name_of (Tag n as cs) = n"
| "name_of (Str k s) = []"

fun attrs_of :: "node \<Rightarrow> (string \<times> attr_value) list" where
  "attrs_of (Tag n as cs) = as"
| "attrs_of (Str k s) = []"

fun contents_of :: "node \<Rightarrow> node list" where
  "contents_of (Tag n as cs) = cs"
| "contents_of (Str k s) = []"

fun descendants :: "located \<Rightarrow> located list" where
  \<comment> \<open>\<open>element.descendants\<close>: every node below, in document order.\<close>
  "descendants (Tag n as cs, anc) =
     concat (map (\<lambda>c. (c, Tag n as cs # anc) # descendants (c, Tag n as cs # anc)) cs)"
| "descendants (Str k s, anc) = []"

definition find_tag :: "(node \<Rightarrow> bool) \<Rightarrow> located \<Rightarrow> located option" where
  \<comment> \<open>\<open>element.find(...)\<close>: the first tag below that satisfies the test.\<close>
  "find_tag P el = List.find (\<lambda>d. is_tag (fst d) \<and> P (fst d)) (descendants el)"

definition find_named :: "string \<Rightarrow> located \<Rightarrow> located option" where
  \<comment> \<open>\<open>element.find(name)\<close>\<close>
  "find_named name el = find_tag (\<lambda>t. name_of t = name) el"

fun decompose_all :: "string list \<Rightarrow> node \<Rightarrow> node" where
  \<comment> \<open>The tree after \<open>decompose()\<close> on every tag below whose name is listed.\<close>
  "decompose_all names (Tag n as cs) =
     Tag n as (map (decompose_all names)
                 (filter (\<lambda>c. \<not> (is_tag c \<and> name_of c \<in> set names)) cs))"
| "decompose_all names (Str k s) = Str k s"

fun dot_string :: "node \<Rightarrow> string option" where
  \<comment> \<open>\<open>tag.string\<close>\<close>
  "dot_string (Tag n as [Str k s]) = Some s"
| "dot_string (Tag n as [Tag m bs ds]) = dot_string (Tag m bs ds)"
| "dot_string other = None"

definition interesting_string_types :: "string \<Rightarrow> string_kind list" where
  \<comment> \<open>The string classes \<open>get_text\<close> collects below a tag of this name.\<close>
  "interesting_string_types name =
     (if name = ''script'' then [Script]
      else if name = ''style'' then [Stylesheet]
      else if name = ''template'' then [TemplateString]
      else if name = ''rt'' then [RubyTextString]
      else if name = ''rp'' then [RubyParenthesisString]
      else [Text, CData])"

fun stripped_strings :: "string_kind list \<Rightarrow> node \<Rightarrow> string list" where
  \<comment> \<open>The strings below of the given classes, each stripped, the empty ones left out.\<close>
  "stripped_strings kinds (Tag n as cs) = concat (map (stripped_strings kinds) cs)"
| "stripped_strings kinds (Str k s) = (if k \<in> set kinds \<and> strip s \<noteq> [] then [strip s] else [])"

definition get_text :: "node \<Rightarrow> string" where
  \<comment> \<open>\<open>tag.get_text(" ", strip=True)\<close>\<close>
  "get_text t = join '' '' (stripped_strings (interesting_string_types (name_of t)) t)"

subsection \<open>Serialisation: \<open>str(tag)\<close>\<close>

definition empty_element_tags :: "string list" where
  "empty_element_tags =
     [''area'', ''base'', ''br'', ''col'', ''embed'', ''hr'', ''img'', ''input'', ''keygen'',
      ''link'', ''menuitem'', ''meta'', ''param'', ''source'', ''track'', ''wbr'',
      ''basefont'', ''bgsound'', ''command'', ''frame'', ''image'', ''isindex'', ''nextid'',
      ''spacer'']"

definition substitute_xml :: "string \<Rightarrow> string" where
  "substitute_xml s =
     concat (map (\<lambda>c. if c = CHR ''&'' then ''&amp;''
                       else if c = CHR ''<'' then ''&lt;''
                       else if c = CHR ''>'' then ''&gt;'' else [c]) s)"

definition quoted_attribute_value :: "string \<Rightarrow> string" where
  \<open>quoted_attribute_value v =
     (if CHR 0x22 \<in> set v
      then (if CHR 0x27 \<in> set v
            then [CHR 0x22] @ concat (map (\<lambda>c. if c = CHR 0x22 then ''&quot;'' else [c]) v) @ [CHR 0x22]
            else [CHR 0x27] @ v @ [CHR 0x27])
      else [CHR 0x22] @ v @ [CHR 0x22])\<close>

definition attr_text :: "attr_value \<Rightarrow> string" where
  "attr_text v = (case v of Single s \<Rightarrow> s | Multi ws \<Rightarrow> join '' '' ws)"

fun str_le :: "string \<Rightarrow> string \<Rightarrow> bool" where
  \<comment> \<open>\<open>a <= b\<close> on \<open>str\<close>: by code points, a prefix first.\<close>
  "str_le [] b = True"
| "str_le (c # cs) [] = False"
| "str_le (c # cs) (d # ds) =
     ((of_char c :: nat) < of_char d \<or> (c = d \<and> str_le cs ds))"

fun insert_attr :: "string \<times> attr_value \<Rightarrow> (string \<times> attr_value) list \<Rightarrow> (string \<times> attr_value) list" where
  "insert_attr a [] = [a]"
| "insert_attr a (b # bs) = (if str_le (fst a) (fst b) then a # b # bs else b # insert_attr a bs)"

definition sorted_attrs :: "(string \<times> attr_value) list \<Rightarrow> (string \<times> attr_value) list" where
  \<comment> \<open>The formatter writes the attributes sorted by name.\<close>
  "sorted_attrs as = foldr insert_attr as []"

definition attribute_string :: "(string \<times> attr_value) list \<Rightarrow> string" where
  "attribute_string as =
     concat (map (\<lambda>(k, v). '' '' @ k @ ''='' @ quoted_attribute_value (substitute_xml (attr_text v)))
               (sorted_attrs as))"

definition output_ready :: "string \<Rightarrow> string_kind \<Rightarrow> string \<Rightarrow> string" where
  \<comment> \<open>A string as written inside a parent of the given name.\<close>
  "output_ready parent k s =
     (case k of
        Comment \<Rightarrow> ''<!--'' @ s @ ''-->''
      | CData \<Rightarrow> ''<![CDATA['' @ s @ '']]>''
      | ProcessingInstruction \<Rightarrow> ''<?'' @ s @ ''>''
      | Declaration \<Rightarrow> ''<?'' @ s @ ''?>''
      | Doctype \<Rightarrow> ''<!DOCTYPE '' @ s @ ''>\<newline>''
      | _ \<Rightarrow> if parent \<in> set [''script'', ''style''] then s else substitute_xml s)"

fun decode :: "string \<Rightarrow> node \<Rightarrow> string" where
  \<comment> \<open>A node as written inside a parent of the given name.\<close>
  "decode parent (Str k s) = output_ready parent k s"
| "decode parent (Tag n as cs) =
     (if cs = [] \<and> n \<in> set empty_element_tags
      then ''<'' @ n @ attribute_string as @ ''/>''
      else ''<'' @ n @ attribute_string as @ ''>'' @ concat (map (decode n) cs) @
           ''</'' @ n @ ''>'')"

definition render :: "node \<Rightarrow> string" where
  \<comment> \<open>\<open>str(element)\<close>; the \<open>BeautifulSoup\<close> object is written as its contents.\<close>
  "render t =
     (if name_of t = ''[document]'' then concat (map (decode ''[document]'') (contents_of t))
      else decode [] t)"

subsection \<open>Selectors (soupsieve)\<close>

definition ascii_lower :: "string \<Rightarrow> string" where
  "ascii_lower s =
     map (\<lambda>c. let n = (of_char c :: nat) in if 65 \<le> n \<and> n \<le> 90 then char_of (n + 32) else c) s"

fun attribute_by_name :: "string \<Rightarrow> (string \<times> attr_value) list \<Rightarrow> attr_value option" where
  \<comment> \<open>The first attribute whose name is the given one up to ASCII case.\<close>
  "attribute_by_name a [] = None"
| "attribute_by_name a ((k, v) # kvs) =
     (if ascii_lower k = ascii_lower a then Some v else attribute_by_name a kvs)"

definition css_space :: "char \<Rightarrow> bool" where
  "css_space c = (c \<in> set [CHR '' '', CHR 0x09, CHR 0x0D, CHR ''\<newline>'', CHR 0x0C])"

definition classes_of :: "node \<Rightarrow> string list" where
  "classes_of t =
     (case attribute_by_name ''class'' (attrs_of t) of
        None \<Rightarrow> []
      | Some (Multi ws) \<Rightarrow> ws
      | Some (Single s) \<Rightarrow> split_from css_space [] s)"

fun matches_simple :: "simple_selector \<Rightarrow> node \<Rightarrow> bool" where
  "matches_simple (ByTag t) el = (ascii_lower (name_of el) = ascii_lower t)"
| "matches_simple (ById i) el = (attribute_by_name ''id'' (attrs_of el) = Some (Single i))"
| "matches_simple (ByClass c) el = (c \<in> set (classes_of el))"
| "matches_simple (AttrExists a) el = (attribute_by_name a (attrs_of el) \<noteq> None)"
| "matches_simple (AttrEq a v) el =
     (case attribute_by_name a (attrs_of el) of
        None \<Rightarrow> False
      | Some w \<Rightarrow> attr_text w = v \<or> attr_text w = v @ ''\<newline>'')"
| "matches_simple (AttrContains a v) el =
     (case attribute_by_name a (attrs_of el) of
        None \<Rightarrow> False
      | Some w \<Rightarrow> v \<noteq> [] \<and> contains v (attr_text w))"

definition matches_compound :: "simple_selector list \<Rightarrow> node \<Rightarrow> bool" where
  "matches_compound sels el = (is_tag el \<and> (\<forall>s \<in> set sels. matches_simple s el))"

fun matches :: "selector \<Rightarrow> located \<Rightarrow> bool" where
  "matches (Sel c) el = matches_compound c (fst el)"
| "matches (Child p c) el =
     (matches_compound c (fst el) \<and>
      (case snd el of [] \<Rightarrow> False | parent # rest \<Rightarrow> matches_compound p parent))"

definition select :: "selector \<Rightarrow> located \<Rightarrow> located list" where
  \<comment> \<open>\<open>element.select(selector)\<close>: the matching tags below, in document order.\<close>
  "select sel el = filter (matches sel) (descendants el)"

definition select_one :: "selector \<Rightarrow> located \<Rightarrow> located option" where
  "select_one sel el = (case select sel el of [] \<Rightarrow> None | m # ms \<Rightarrow> Some m)"

section \<open>The relevance reducer (agent.py, extract_relevant_html)\<close>

abbreviation by_tag :: "string \<Rightarrow> selector" where
  "by_tag t \<equiv> Sel [ByTag t]"

abbreviation class_has :: "string \<Rightarrow> selector" where
  \<comment> \<open>\<^verbatim>\<open>[class*="w"]\<close>\<close>
  "class_has w \<equiv> Sel [AttrContains ''class'' w]"

definition main_selectors :: "selector list" where
  "main_selectors =
     [by_tag ''main'', Sel [AttrEq ''role'' ''main''], by_tag ''article'', Sel [ById ''content''],
      Sel [ById ''main''], Sel [ByClass ''content''], Sel [ByClass ''main'']]"

definition structural_keywords :: "(string \<times> selector list) list" where
  \<comment> \<open>The dictionary of the same name, in its order.\<close>
  "structural_keywords =
     [(''card'', [class_has ''card'']),
      (''container'', [class_has ''container'']),
      (''wrapper'', [class_has ''wrapper'']),
      (''section'', [by_tag ''section'']),
      (''block'', [class_has ''block'']),
      (''grid'', [class_has ''grid'']),
      (''list'', [by_tag ''ul'', by_tag ''ol'']),
      (''item'', [by_tag ''li'', class_has ''item'']),
      (''row'', [by_tag ''tr'', class_has ''row'']),
      (''column'', [by_tag ''td'', by_tag ''th'', class_has ''col'']),
      (''table'', [by_tag ''table'']),
      (''article'', [by_tag ''article'']),
      (''post'', [class_has ''post'']),
      (''comment'', [class_has ''comment'']),
      (''review'', [class_has ''review'', Sel [AttrContains ''itemtype'' ''Review'']]),
      (''title'', [class_has ''title'', Sel [ByClass ''title'']]),
      (''header'', [by_tag ''h1'', by_tag ''h2'', by_tag ''h3'', class_has ''header'']),
      (''headline'', [by_tag ''h1'', by_tag ''h2'', by_tag ''h3'']),
      (''description'', [class_has ''description'', class_has ''desc'']),
      (''summary'', [class_has ''summary'']),
      (''author'', [class_has ''author'', Sel [AttrEq ''rel'' ''author'']]),
      (''user'', [class_has ''user'', class_has ''profile'']),
      (''name'', [class_has ''name'']),
      (''date'', [class_has ''date'', class_has ''time'', by_tag ''time'']),
      (''timestamp'', [by_tag ''time'']),
      (''product'', [class_has ''product'', Sel [AttrContains ''itemtype'' ''Product'']]),
      (''price'', [class_has ''price'']),
      (''rating'', [class_has ''rating'']),
      (''image'', [by_tag ''img'']),
      (''picture'', [by_tag ''picture'']),
      (''photo'', [by_tag ''img'', by_tag ''figure'']),
      (''gallery'', [class_has ''gallery'']),
      (''link'', [by_tag ''a'']),
      (''url'', [Sel [ByTag ''a'', AttrExists ''href'']]),
      (''href'', [Sel [ByTag ''a'', AttrExists ''href'']]),
      (''text'', [by_tag ''p'', Child [ByTag ''div''] [ByTag ''p'']]),
      (''content'', [by_tag ''p''])]"

definition added_selectors :: "string list \<Rightarrow> selector list" where
  \<comment> \<open>The selectors added to the set \<open>active_selectors\<close>, in the order of the calls of
      \<open>update\<close> (a selector may be added more than once).\<close>
  "added_selectors prompt_words =
     concat (map snd (filter (\<lambda>entry. fst entry \<in> set prompt_words) structural_keywords))"

fun first_match :: "selector list \<Rightarrow> located \<Rightarrow> located option" where
  \<comment> \<open>The loop over \<open>main_selectors\<close>: the first selector with a match decides.\<close>
  "first_match [] el = None"
| "first_match (sel # sels) el =
     (case select_one sel el of Some m \<Rightarrow> Some m | None \<Rightarrow> first_match sels el)"

fun tag_eq :: "node \<Rightarrow> node \<Rightarrow> bool" where
  \<comment> \<open>\<open>a == b\<close>. \<open>Tag.__eq__\<close> compares the names, the attributes as dictionaries and
      the children in order; two strings are equal when their texts are.\<close>
  "tag_eq (Tag name attrs children) (Tag name' attrs' children') =
     (name = name' \<and>
      list_all (\<lambda>k. map_of attrs k = map_of attrs' k) (map fst attrs @ map fst attrs') \<and>
      list_all2 tag_eq children children')"
| "tag_eq (Str kind s) (Str kind' s') = (s = s')"
| "tag_eq (Tag name attrs children) (Str kind s) = False"
| "tag_eq (Str kind s) (Tag name attrs children) = False"

definition same_key :: "node \<Rightarrow> node \<Rightarrow> bool" where
  \<comment> \<open>Two tags are one key of a \<open>dict\<close>: their hashes are equal, \<open>Tag.__hash__\<close> being the
      hash of \<open>str(tag)\<close> (two different texts are taken to have different hashes), and
      they are equal.\<close>
  "same_key a b = (if tag_eq a b then render a = render b else False)"

fun first_seen :: "node list \<Rightarrow> node list \<Rightarrow> node list" where
  \<comment> \<open>\<open>list(dict.fromkeys(xs))\<close>, the keys seen so far as first argument.\<close>
  "first_seen seen [] = []"
| "first_seen seen (x # xs) =
     (if list_ex (same_key x) seen then first_seen seen xs else x # first_seen (x # seen) xs)"

fun unique_elements :: "node list \<Rightarrow> located list \<Rightarrow> located list" where
  \<comment> \<open>\<open>dict.fromkeys\<close> on tags: of several tags that are one key the first is kept.\<close>
  "unique_elements seen [] = []"
| "unique_elements seen (el # els) =
     (if list_ex (same_key (fst el)) seen then unique_elements seen els
      else el # unique_elements (fst el # seen) els)"

definition contextual_element :: "located \<Rightarrow> node list" where
  \<comment> \<open>The grandparent, or else the parent, of a selected element, unless it is
      \<open>body\<close> or \<open>html\<close>.\<close>
  "contextual_element el =
     (case snd el of
        [] \<Rightarrow> []
      | [parent] \<Rightarrow>
          if name_of parent \<notin> set [''body'', ''html''] then [parent] else []
      | parent # grandparent # rest \<Rightarrow>
          if name_of grandparent \<notin> set [''body'', ''html''] then [grandparent]
          else if name_of parent \<notin> set [''body'', ''html''] then [parent]
          else [])"

definition attr_get :: "string \<Rightarrow> node \<Rightarrow> attr_value option" where
  \<comment> \<open>\<open>tag.get(name)\<close>\<close>
  "attr_get name t = map_of (attrs_of t) name"

definition attr_is :: "string \<Rightarrow> string \<Rightarrow> node \<Rightarrow> bool" where
  \<comment> \<open>The test of \<open>find(..., attrs={name: value})\<close>.\<close>
  "attr_is name value t =
     (case attr_get name t of
        None \<Rightarrow> False
      | Some (Single s) \<Rightarrow> s = value
      | Some (Multi ws) \<Rightarrow> value \<in> set ws \<or> join '' '' ws = value)"

definition head_parts :: "located \<Rightarrow> string list" where
  \<comment> \<open>The title and the meta description, when the document has them.\<close>
  "head_parts soup =
     (case find_named ''head'' soup of
        None \<Rightarrow> []
      | Some head \<Rightarrow>
          (case find_named ''title'' head of
             None \<Rightarrow> []
           | Some title \<Rightarrow>
               (case dot_string (fst title) of
                  None \<Rightarrow> []
                | Some s \<Rightarrow> if s \<noteq> [] then [render (fst title)] else [])) @
          (case find_tag (\<lambda>t. name_of t = ''meta'' \<and> attr_is ''name'' ''description'' t) head of
             None \<Rightarrow> []
           | Some meta_desc \<Rightarrow>
               (case attr_get ''content'' (fst meta_desc) of
                  None \<Rightarrow> []
                | Some (Single s) \<Rightarrow> if s \<noteq> [] then [render (fst meta_desc)] else []
                | Some (Multi ws) \<Rightarrow> if ws \<noteq> [] then [render (fst meta_desc)] else [])))"

definition truncation_marker :: string where
  "truncation_marker = ''\<newline>\<newline>... (HTML truncated)''"

definition max_len :: nat where
  "max_len = 75000"

definition truncate_combined :: "string \<Rightarrow> string" where
  "truncate_combined combined_content =
     (if max_len < length combined_content
      then take max_len combined_content @ truncation_marker
      else combined_content)"

definition stripped_soup :: "node \<Rightarrow> located" where
  \<comment> \<open>The document after the first loop has removed what is usually not content.\<close>
  "stripped_soup parsed =
     (decompose_all [''script'', ''style'', ''header'', ''footer'', ''nav'', ''aside''] parsed, [])"

definition output_parts :: "runtime \<Rightarrow> located \<Rightarrow> string \<Rightarrow> string list" where
  \<comment> \<open>Stages 1 to 3 of \<open>extract_relevant_html\<close>, up to the list \<open>output_parts\<close>.\<close>
  "output_parts rt soup user_prompt =
     (let prompt = lower user_prompt;
          main_content_soup = first_match main_selectors soup;
          search_scope =
            (case main_content_soup of
               Some m \<Rightarrow> m
             | None \<Rightarrow> (case find_named ''body'' soup of Some b \<Rightarrow> b | None \<Rightarrow> soup));
          prompt_words = split prompt;
          active_selectors =
            (if added_selectors prompt_words = [] then []
             else set_iter rt (added_selectors prompt_words));
          relevant_elements =
            concat (map (\<lambda>selector. take 20 (select selector search_scope)) active_selectors);
          parts =
            head_parts soup @
            (case main_content_soup of
               Some m \<Rightarrow>
                 if relevant_elements = [] then [render (fst m)]
                 else map render
                        (take 30 (first_seen []
                           (concat (map contextual_element
                              (unique_elements [] relevant_elements)))))
             | None \<Rightarrow>
                 map render
                   (take 30 (first_seen []
                      (concat (map contextual_element
                         (unique_elements [] relevant_elements))))))
      in if length parts \<le> 2
         then (case find_named ''body'' soup of
                 Some body \<Rightarrow> parts @ [take 15000 (render (fst body))]
               | None \<Rightarrow> parts)
         else parts)"

definition extract_try :: "runtime \<Rightarrow> string \<Rightarrow> string \<Rightarrow> py_exception + string" where
  \<comment> \<open>The \<open>try\<close> block of \<open>extract_relevant_html\<close>.\<close>
  "extract_try rt html_content user_prompt =
     (case html_parser rt html_content of
        Inl e \<Rightarrow> Inl e
      | Inr parsed \<Rightarrow>
          Inr (truncate_combined
                 (join ''\<newline>\<newline>'' (output_parts rt (stripped_soup parsed) user_prompt))))"

definition extract_relevant_html :: "runtime \<Rightarrow> string \<Rightarrow> string \<Rightarrow> string" where
  \<comment> \<open>\<open>extract_relevant_html(html_content, user_prompt)\<close>: on any exception the first
      15,000 characters of the raw document.\<close>
  "extract_relevant_html rt html_content user_prompt =
     (case extract_try rt html_content user_prompt of
        Inr excerpt \<Rightarrow> excerpt
      | Inl e \<Rightarrow> take 15000 html_content)"

section \<open>The context expander (agent.py, _expand_html_context)\<close>

fun match_words :: "string list \<Rightarrow> string \<Rightarrow> bool" where
  \<comment> \<open>The pattern \<^verbatim>\<open>w1\s*w2\s*...\<close> (each word escaped) matched at the start of a text.
      No word has a white-space character, so \<^verbatim>\<open>\s*\<close> takes all the white space there is.\<close>
  "match_words [] s = True"
| "match_words [w] s = prefix w s"
| "match_words (w # v # ws) s =
     (prefix w s \<and> match_words (v # ws) (dropWhile is_space (drop (length w) s)))"

fun regex_search :: "string list \<Rightarrow> string \<Rightarrow> bool" where
  \<comment> \<open>\<open>regex.search(s)\<close> for that pattern: a match at some position.\<close>
  "regex_search ws [] = match_words ws []"
| "regex_search ws (c # cs) = (match_words ws (c # cs) \<or> regex_search ws cs)"

definition body_or_full :: "located \<Rightarrow> string \<Rightarrow> string" where
  \<comment> \<open>\<open>str(body) if body else full_html\<close>\<close>
  "body_or_full full_soup full_html =
     (case find_named ''body'' full_soup of
        Some body \<Rightarrow> render (fst body)
      | None \<Rightarrow> full_html)"

definition text_matches :: "string list \<Rightarrow> located \<Rightarrow> located list" where
  \<comment> \<open>\<open>full_soup.find_all(text=regex)\<close>: the strings of the document the pattern is
      found in.\<close>
  "text_matches ws full_soup =
     filter (\<lambda>d. case fst d of Str k s \<Rightarrow> regex_search ws s | Tag n as cs \<Rightarrow> False)
       (descendants full_soup)"

definition expand_try :: "runtime \<Rightarrow> string \<Rightarrow> string \<Rightarrow> py_exception + string" where
  \<comment> \<open>The \<open>try\<close> block of \<open>_expand_html_context\<close>.\<close>
  "expand_try rt full_html last_snippet =
     (case html_parser rt full_html of
        Inl e \<Rightarrow> Inl e
      | Inr full_doc \<Rightarrow>
     (case html_parser rt last_snippet of
        Inl e \<Rightarrow> Inl e
      | Inr snippet_doc \<Rightarrow>
     (let full_soup = (full_doc, []) in
      case find_tag (\<lambda>t. name_of t \<noteq> ''html'' \<and> name_of t \<noteq> ''body'') (snippet_doc, []) of
        None \<Rightarrow> Inr (body_or_full full_soup full_html)
      | Some first_element_in_snippet \<Rightarrow>
          let text_content = get_text (fst first_element_in_snippet) in
          if text_content = [] then Inr (body_or_full full_soup full_html)
          else
            (case text_matches (take 15 (split text_content)) full_soup of
               [] \<Rightarrow> Inr (body_or_full full_soup full_html)
             | found # others \<Rightarrow>
                 (case snd found of
                    target_element # target_parent # rest \<Rightarrow>
                      if name_of target_parent \<notin> set [''body'', ''html'']
                      then Inr (render target_parent)
                      else Inr (body_or_full full_soup full_html)
                  | _ \<Rightarrow> Inr (body_or_full full_soup full_html))))))"

definition expand_html_context :: "runtime \<Rightarrow> string \<Rightarrow> string \<Rightarrow> py_exception + string" where
  \<comment> \<open>\<open>_expand_html_context(full_html, last_snippet)\<close>: the \<open>try\<close> block under its handler,
      which returns the whole document.\<close>
  "expand_html_context rt full_html last_snippet =
     (case expand_try rt full_html last_snippet of
        Inr excerpt \<Rightarrow> Inr excerpt
      | Inl e \<Rightarrow> Inr full_html)"

section \<open>The structural outline (agent.py, create_html_structure_map)\<close>

definition format_value :: "attr_value \<Rightarrow> string" where
  \<comment> \<open>An attribute value inside an f-string.\<close>
  "format_value v =
     (case v of
        Single s \<Rightarrow> s
      | Multi ws \<Rightarrow> ''['' @ join '', '' (map repr_str ws) @ '']'')"

definition first_classes :: "attr_value \<Rightarrow> string" where
  \<comment> \<open>\<open>'.'.join(element.get('class', [])[:3])\<close>; on a \<open>str\<close> the slice and the join
      work on its characters.\<close>
  "first_classes v =
     (case v of
        Multi ws \<Rightarrow> join ''.'' (take 3 ws)
      | Single s \<Rightarrow> join ''.'' (map (\<lambda>c. [c]) (take 3 s)))"

definition tag_info :: "node \<Rightarrow> string" where
  "tag_info element =
     name_of element @
     (case attr_get ''id'' element of None \<Rightarrow> [] | Some v \<Rightarrow> ''#'' @ format_value v) @
     (case attr_get ''class'' element of None \<Rightarrow> [] | Some v \<Rightarrow> ''.'' @ first_classes v)"

fun build_tree :: "node \<Rightarrow> string \<Rightarrow> nat \<Rightarrow> string"
  and build_children :: "node list \<Rightarrow> string \<Rightarrow> nat \<Rightarrow> nat \<Rightarrow> string" where
  \<comment> \<open>\<open>build_children\<close> is the loop over the child tags, with \<open>child_count\<close> as last
      argument.\<close>
  "build_tree (Str k s) indent depth = []"
| "build_tree (Tag n as cs) indent depth =
     (if n = [] then []
      else indent @ ''<'' @ tag_info (Tag n as cs) @ ''>\<newline>'' @
           (if 7 < depth then indent @ ''  [...max depth reached...]\<newline>''
            else build_children cs indent depth 0))"
| "build_children [] indent depth child_count = []"
| "build_children (Str k s # rest) indent depth child_count =
     build_children rest indent depth child_count"
| "build_children (Tag n as cs # rest) indent depth child_count =
     (if n = [] then build_children rest indent depth child_count
      else if 10 < child_count then indent @ ''  [...and more...]\<newline>''
      else build_tree (Tag n as cs) (indent @ ''  '') (depth + 1) @
           build_children rest indent depth (child_count + 1))"

definition create_html_structure_map :: "runtime \<Rightarrow> string \<Rightarrow> string" where
  "create_html_structure_map rt html_content =
     (case html_parser rt html_content of
        Inl e \<Rightarrow> ''Error: Could not generate HTML structure map.''
      | Inr parsed \<Rightarrow>
          (case find_named ''body'' (parsed, []) of
             None \<Rightarrow> ''<body> tag not found.''
           | Some body \<Rightarrow> build_tree (fst body) [] 0))"

section \<open>The job (agent.py, run_scraping_job)\<close>

text \<open>
  One entry of the failure history (the dictionary with the keys \<open>reason\<close>, \<open>code\<close>,
  \<open>stdout\<close>, \<open>stderr\<close> and \<open>html_snippet\<close>), the arguments of one call of
  \<open>generate_script\<close>, and what it returns. The settings and the log callback are handed
  on unchanged and are left out; messages to the log have no part in the control flow.
\<close>

record failure =
  reason :: string
  code :: string
  stdout_sample :: string
  stderr_sample :: string
  html_snippet :: string

record request =
  prompt :: string
  url :: string
  html_content :: string
  history :: "failure list"
  structure_map :: "string option"

record generated =
  scraper_py :: string
  requirements_txt :: string

text \<open>
  The world outside the job, attempt by attempt (the attempts are numbered from 0):
  the \<open>uuid\<close> in the run id, the answer to the HTTP request (the text of the page, or the
  exception of \<open>client.get\<close> or \<open>raise_for_status\<close>), what the generation oracle answers to a
  request, an exception when the two files are written, what the two subprocesses of the
  executor do, and the path of the archive or the exception of \<open>_create_zip_package\<close>.
\<close>

record world =
  run_id :: string
  fetch :: "py_exception + string"
  generate_script :: "nat \<Rightarrow> request \<Rightarrow> py_exception + generated"
  write_files :: "nat \<Rightarrow> py_exception option"
  pip_install :: "nat \<Rightarrow> proc_outcome"
  run_scraper :: "nat \<Rightarrow> proc_outcome"
  create_zip_package :: "nat \<Rightarrow> py_exception + string"

record job_result =
  status :: string
  message :: string
  data_preview :: "string option"
  download_url :: "string option"
  zip_path :: "string option"
  final_error :: "string option"

text \<open>
  The variables of the loop. \<open>calls\<close> is not a variable of the program: it records the
  requests sent to \<open>generate_script\<close>, in order.
\<close>

record loop_state =
  failures :: "failure list"
  relevant_html :: string
  current_code :: "string option"
  calls :: "request list"

datatype step =
    Return job_result loop_state
  | Break loop_state
  | Continue loop_state
  | Propagate py_exception loop_state

definition max_attempts :: nat where
  "max_attempts = 5"

definition next_attempt :: "nat \<Rightarrow> loop_state \<Rightarrow> step" where
  \<comment> \<open>The end of a failed attempt: \<open>break\<close> on the last one.\<close>
  "next_attempt attempt st = (if attempt = max_attempts - 1 then Break st else Continue st)"

definition record_failure :: "loop_state \<Rightarrow> string \<Rightarrow> string \<Rightarrow> string \<Rightarrow> string \<Rightarrow> loop_state" where
  \<comment> \<open>\<open>history.append({...})\<close>\<close>
  "record_failure st why generated_code out err =
     st\<lparr>failures := failures st @
          [\<lparr>reason = why, code = generated_code, stdout_sample = out, stderr_sample = err,
            html_snippet = relevant_html st\<rparr>]\<rparr>"

definition on_exception :: "nat \<Rightarrow> loop_state \<Rightarrow> py_exception \<Rightarrow> step" where
  \<comment> \<open>The handler of the \<open>try\<close> inside the loop.\<close>
  "on_exception attempt st e =
     next_attempt attempt
       (record_failure st
          (''An unexpected error occurred during script generation or execution: '' @ exc_str e)
          (case current_code st of Some c \<Rightarrow> c | None \<Rightarrow> ''Code not generated'')
          [] (exc_str e))"

definition marker :: string where
  "marker = ''playwright install''"

definition after_execution :: "runtime \<Rightarrow> world \<Rightarrow> string \<Rightarrow> nat \<Rightarrow> loop_state \<Rightarrow> string \<Rightarrow> execution_result \<Rightarrow> step" where
  \<comment> \<open>The branches on the execution result.\<close>
  "after_execution rt w user_prompt attempt st generated_code execution_result =
     (if exit_code execution_result = 0 \<and> strip (stdout execution_result) \<noteq> []
      then
        (let validation = validate_scraper_results rt (stdout execution_result) user_prompt in
         if valid validation
         then (case create_zip_package w attempt of
                 Inl e \<Rightarrow> on_exception attempt st e
               | Inr path \<Rightarrow>
                   Return \<lparr>status = ''success'',
                           message = ''Scraper generated and tested successfully!'',
                           data_preview = Some (truncate_preview (stdout execution_result) 500),
                           download_url = Some (''/api/download/'' @ run_id w),
                           zip_path = Some path,
                           final_error = None\<rparr> st)
         else next_attempt attempt
                (record_failure st (feedback validation) generated_code
                   (truncate_preview (stdout execution_result) 2000)
                   (truncate_preview (stderr execution_result) 2000)))
      else if contains marker (lower (stderr execution_result))
      then (case create_zip_package w attempt of
              Inl e \<Rightarrow> on_exception attempt st e
            | Inr path \<Rightarrow>
                Return \<lparr>status = ''action_required'',
                        message = ''The script requires Playwright. Please run 'playwright install' and then run the script from the downloaded zip.'',
                        data_preview = None,
                        download_url = Some (''/api/download/'' @ run_id w),
                        zip_path = Some path,
                        final_error = None\<rparr> st)
      else next_attempt attempt
             (record_failure st
                (''Script execution failed with exit code '' @
                   str_int (exit_code execution_result) @ ''. See STDERR for details.'')
                generated_code
                (truncate_preview (stdout execution_result) 2000)
                (truncate_preview (stderr execution_result) 2000)))"

definition attempt_body :: "runtime \<Rightarrow> world \<Rightarrow> string \<Rightarrow> string \<Rightarrow> string \<Rightarrow> string \<Rightarrow> nat \<Rightarrow> loop_state \<Rightarrow> step" where
  \<comment> \<open>The body of the loop, for attempt number \<open>attempt\<close>; \<open>page\<close> is the fetched document
      and \<open>outline\<close> its structure map.\<close>
  "attempt_body rt w user_prompt target page outline attempt st =
     (case (if 0 < attempt \<and> failures st \<noteq> []
            then (case expand_html_context rt page (html_snippet (last (failures st))) of
                    Inl e \<Rightarrow> Inl e
                  | Inr expanded \<Rightarrow> Inr (st\<lparr>relevant_html := expanded\<rparr>, None))
            else Inr (st, Some outline)) of
        Inl e \<Rightarrow> Propagate e st
      | Inr (st1, structure_map_for_request) \<Rightarrow>
          (let req = \<lparr>prompt = user_prompt, url = target, html_content = relevant_html st1,
                      history = failures st1, structure_map = structure_map_for_request\<rparr>;
               st2 = st1\<lparr>calls := calls st1 @ [req]\<rparr>
           in case generate_script w attempt req of
                Inl e \<Rightarrow> on_exception attempt st2 e
              | Inr result \<Rightarrow>
                  (let st3 = st2\<lparr>current_code := Some (scraper_py result)\<rparr>
                   in case write_files w attempt of
                        Some e \<Rightarrow> on_exception attempt st3 e
                      | None \<Rightarrow>
                          (case run_script_in_dir (pip_install w attempt) (run_scraper w attempt) of
                             Inl e \<Rightarrow> on_exception attempt st3 e
                           | Inr execution_result \<Rightarrow>
                               after_execution rt w user_prompt attempt st3 (scraper_py result)
                                 execution_result))))"

fun attempts :: "(nat \<Rightarrow> loop_state \<Rightarrow> step) \<Rightarrow> nat list \<Rightarrow> loop_state \<Rightarrow> step" where
  \<comment> \<open>\<open>for attempt in range(max_attempts)\<close> over the attempts still to run; the result is
      \<open>Break\<close> when the loop is left at its end.\<close>
  "attempts body [] st = Break st"
| "attempts body (attempt # rest) st =
     (case body attempt st of
        Continue st' \<Rightarrow> attempts body rest st'
      | other \<Rightarrow> other)"

definition failed_result :: "loop_state \<Rightarrow> job_result" where
  \<comment> \<open>The statements after the loop.\<close>
  "failed_result st =
     (let final_reason = (if failures st = [] then ''Unknown failure'' else reason (last (failures st)));
          final_stderr = (if failures st = [] then ''No details available.''
                          else stderr_sample (last (failures st)))
      in \<lparr>status = ''error'',
          message = ''The agent failed to generate a working scraper. Please check the website or try a more specific prompt.'',
          data_preview = None, download_url = None, zip_path = None,
          final_error = Some (''Final attempt failed: '' @ final_reason @
                              ''\<newline>\<newline>STDERR:\<newline>'' @ final_stderr)\<rparr>)"

definition error_result :: "py_exception \<Rightarrow> job_result" where
  \<comment> \<open>The two handlers of the outer \<open>try\<close>.\<close>
  "error_result e =
     \<lparr>status = ''error'',
      message = (if exc_cls e = RequestError
                 then ''Failed to fetch content from URL: '' @ exc_str e
                 else ''Unexpected error occurred: '' @ exc_str e),
      data_preview = None, download_url = None, zip_path = None, final_error = None\<rparr>"

definition initial_state :: "runtime \<Rightarrow> string \<Rightarrow> string \<Rightarrow> loop_state" where
  "initial_state rt page user_prompt =
     \<lparr>failures = [], relevant_html = extract_relevant_html rt page user_prompt,
      current_code = None, calls = []\<rparr>"

definition run_loop :: "runtime \<Rightarrow> world \<Rightarrow> string \<Rightarrow> string \<Rightarrow> string \<Rightarrow> step" where
  \<comment> \<open>The loop of the job on a fetched page.\<close>
  "run_loop rt w user_prompt target page =
     attempts (attempt_body rt w user_prompt target page (create_html_structure_map rt page))
       [0 ..< max_attempts] (initial_state rt page user_prompt)"

definition run_scraping_job :: "runtime \<Rightarrow> world \<Rightarrow> string \<Rightarrow> string \<Rightarrow> job_result \<times> loop_state" where
  \<comment> \<open>\<open>run_scraping_job(user_prompt, url, settings, log_callback)\<close> from its \<open>try\<close> on: the
      returned dictionary, and the variables of the loop when it was left.\<close>
  "run_scraping_job rt w user_prompt target =
     (case fetch w of
        Inl e \<Rightarrow> (error_result e, \<lparr>failures = [], relevant_html = [], current_code = None, calls = []\<rparr>)
      | Inr page \<Rightarrow>
          (case run_loop rt w user_prompt target page of
             Return result st \<Rightarrow> (result, st)
           | Break st \<Rightarrow> (failed_result st, st)
           | Continue st \<Rightarrow> (failed_result st, st)
           | Propagate e st \<Rightarrow> (error_result e, st)))"

section \<open>Notions used in the properties of the job\<close>

definition execution :: "world \<Rightarrow> nat \<Rightarrow> py_exception + execution_result" where
  \<comment> \<open>What the executor returns on an attempt.\<close>
  "execution w attempt = run_script_in_dir (pip_install w attempt) (run_scraper w attempt)"

definition clean_run :: "execution_result \<Rightarrow> bool" where
  \<comment> \<open>The condition \<open>exit_code == 0 and stdout.strip()\<close>.\<close>
  "clean_run r = (exit_code r = 0 \<and> strip (stdout r) \<noteq> [])"

definition fails_validation :: "runtime \<Rightarrow> world \<Rightarrow> string \<Rightarrow> nat \<Rightarrow> bool" where
  \<comment> \<open>The execution result of the attempt is not a clean run with a valid output, and
      its stderr does not have the manual-setup marker.\<close>
  "fails_validation rt w user_prompt attempt =
     (case execution w attempt of
        Inl e \<Rightarrow> True
      | Inr r \<Rightarrow>
          \<not> (clean_run r \<and> valid (validate_scraper_results rt (stdout r) user_prompt)) \<and>
          \<not> contains marker (lower (stderr r)))"

definition trace_ok :: "runtime \<Rightarrow> world \<Rightarrow> string \<Rightarrow> string \<Rightarrow> request list \<Rightarrow> failure list \<Rightarrow> bool" where
  \<comment> \<open>The requests sent so far and the failures recorded so far fit together: request
      \<open>j\<close> carried the first \<open>j\<close> failures and, after the first, the expansion of the excerpt
      before it; failure \<open>j\<close> is that of request \<open>j\<close>.\<close>
  "trace_ok rt w user_prompt page requests recorded =
     ((\<forall>j < length requests.
         history (requests ! j) = take j recorded \<and> j \<le> length recorded \<and>
         (j = 0 \<longrightarrow> html_content (requests ! j) = extract_relevant_html rt page user_prompt) \<and>
         (0 < j \<longrightarrow> expand_html_context rt page (html_content (requests ! (j - 1))) =
                      Inr (html_content (requests ! j)))) \<and>
      (\<forall>j < length recorded.
         j < length requests \<and>
         html_snippet (recorded ! j) = html_content (requests ! j) \<and>
         (\<forall>g. generate_script w j (requests ! j) = Inr g \<longrightarrow> code (recorded ! j) = scraper_py g)))"

definition at_attempt :: "runtime \<Rightarrow> world \<Rightarrow> string \<Rightarrow> string \<Rightarrow> nat \<Rightarrow> loop_state \<Rightarrow> bool" where
  \<comment> \<open>The state in which the loop enters attempt \<open>k\<close>.\<close>
  "at_attempt rt w user_prompt page k st =
     (length (failures st) = k \<and> length (calls st) = k \<and>
      (k = 0 \<longrightarrow> relevant_html st = extract_relevant_html rt page user_prompt) \<and>
      (0 < k \<longrightarrow> relevant_html st = html_content (calls st ! (k - 1))) \<and>
      trace_ok rt w user_prompt page (calls st) (failures st))"

definition left_at :: "runtime \<Rightarrow> world \<Rightarrow> string \<Rightarrow> string \<Rightarrow> nat \<Rightarrow> loop_state \<Rightarrow> bool" where
  \<comment> \<open>The state in which the loop is left during attempt \<open>k\<close>.\<close>
  "left_at rt w user_prompt page k st =
     (length (calls st) = k + 1 \<and> length (failures st) \<le> k + 1 \<and>
      trace_ok rt w user_prompt page (calls st) (failures st))"

fun state_of :: "step \<Rightarrow> loop_state" where
  "state_of (Return r st) = st"
| "state_of (Break st) = st"
| "state_of (Continue st) = st"
| "state_of (Propagate e st) = st"

definition step_ok :: "runtime \<Rightarrow> world \<Rightarrow> string \<Rightarrow> string \<Rightarrow> nat \<Rightarrow> step \<Rightarrow> bool" where
  "step_ok rt w p page k s =
     (case s of
        Continue st' \<Rightarrow> k \<noteq> 4 \<and> at_attempt rt w p page (k + 1) st'
      | Break st' \<Rightarrow> k = 4 \<and> at_attempt rt w p page (k + 1) st'
      | Return r st' \<Rightarrow> left_at rt w p page k st' \<and> length (failures st') = k
      | Propagate e st' \<Rightarrow> False)"

definition loop_ok :: "runtime \<Rightarrow> world \<Rightarrow> string \<Rightarrow> string \<Rightarrow> step \<Rightarrow> bool" where
  "loop_ok rt w p page s =
     (case s of
        Return r st \<Rightarrow> (\<exists>k < 5. left_at rt w p page k st \<and> length (failures st) = k)
      | Break st \<Rightarrow> at_attempt rt w p page 5 st
      | Continue st \<Rightarrow> False
      | Propagate e st \<Rightarrow> False)"

definition iterates_sets :: "runtime \<Rightarrow> bool" where
  \<comment> \<open>Iterating a set visits each of its elements once.\<close>
  "iterates_sets rt = (\<forall>xs. distinct (set_iter rt xs) \<and> set (set_iter rt xs) = set xs)"

definition first_anchor_of :: "node \<Rightarrow> located option" where
  \<comment> \<open>\<open>first_element_in_snippet\<close> of a parsed snippet.\<close>
  "first_anchor_of snippet_doc =
     find_tag (\<lambda>t. name_of t \<noteq> ''html'' \<and> name_of t \<noteq> ''body'') (snippet_doc, [])"

section \<open>Concrete inputs\<close>

text \<open>
  The concrete inputs used below. First \<open>json.loads\<close> on the texts that occur there
  (every other text is taken not to decode).
\<close>

definition example_json_loads :: "string \<Rightarrow> json_outcome" where
  \<open>example_json_loads s =
     (if s = ''[]'' then Decoded (JList [])
      else if s = ''42'' then Decoded (JInt 42)
      else if s = ''[{"a": 1}, {"a": 2}, {"a": 3}]''
      then Decoded (JList [JDict [(''a'', JInt 1)], JDict [(''a'', JInt 2)], JDict [(''a'', JInt 3)]])
      else if s = ''[{"a": 1}, {"a": 1}, {"a": 1}, {"a": 1}, {"a": 1}, {"a": 1}]''
      then Decoded (JList (replicate 6 (JDict [(''a'', JInt 1)])))
      else JSONDecodeError)\<close>

text \<open>
  An objective that asks for \<open>10 ^ 309\<close> items, more than the largest double.
\<close>

definition huge_count :: string where
  "huge_count = CHR ''1'' # replicate 309 (CHR ''0'')"

definition huge_objective :: string where
  "huge_objective = ''get '' @ huge_count @ '' items''"

text \<open>
  The documents of the examples, each with the tree \<open>html.parser\<close> builds for it: a page,
  the excerpts the job derives from it, a fragment without a body, a page with a list
  and a table, a page whose main region is longer than the limit, and the empty text.
  Every other text, \<open>rejected_markup\<close> among them, is taken to be rejected by the parser.
\<close>

definition shop_page :: string where
  "shop_page = ''<html><body><div><p>hello</p></div>xyz<ul><li>x</li></ul></body></html>''"

definition shop_body :: node where
  "shop_body =
     Tag ''body'' []
       [Tag ''div'' [] [Tag ''p'' [] [Str Text ''hello'']],
        Str Text ''xyz'',
        Tag ''ul'' [] [Tag ''li'' [] [Str Text ''x'']]]"

definition shop_doc :: node where
  "shop_doc = Tag ''[document]'' [] [Tag ''html'' [] [shop_body]]"

definition first_excerpt :: string where
  "first_excerpt =
     ''<ul><li>x</li></ul>\<newline>\<newline><body><div><p>hello</p></div>xyz<ul><li>x</li></ul></body>''"

definition second_excerpt :: string where
  "second_excerpt = ''<body><div><p>hello</p></div>xyz<ul><li>x</li></ul></body>''"

definition third_excerpt :: string where
  "third_excerpt = ''<div><p>hello</p></div>''"

definition fragment :: string where
  "fragment = ''<p>hi</p>''"

definition catalogue :: string where
  "catalogue =
     ''<body><section><div><ul></ul></div></section><section><div><table></table></div></section></body>''"

definition catalogue_body :: node where
  "catalogue_body =
     Tag ''body'' []
       [Tag ''section'' [] [Tag ''div'' [] [Tag ''ul'' [] []]],
        Tag ''section'' [] [Tag ''div'' [] [Tag ''table'' [] []]]]"

definition filler :: string where
  "filler = replicate 80000 (CHR ''a'')"

definition long_page :: string where
  "long_page = ''<main>'' @ filler @ ''</main>''"

definition rejected_markup :: string where
  \<comment> \<open>A marked section with an unknown keyword, which \<open>html.parser\<close> rejects.\<close>
  "rejected_markup = ''<![x[a]]>''"

definition example_parser :: "string \<Rightarrow> py_exception + node" where
  "example_parser s =
     (if s = shop_page then Inr shop_doc
      else if s = first_excerpt
      then Inr (Tag ''[document]'' []
                 [Tag ''ul'' [] [Tag ''li'' [] [Str Text ''x'']], Str Text ''\<newline>'', shop_body])
      else if s = second_excerpt then Inr (Tag ''[document]'' [] [shop_body])
      else if s = third_excerpt
      then Inr (Tag ''[document]'' [] [Tag ''div'' [] [Tag ''p'' [] [Str Text ''hello'']]])
      else if s = fragment then Inr (Tag ''[document]'' [] [Tag ''p'' [] [Str Text ''hi'']])
      else if s = catalogue
      then Inr (Tag ''[document]'' [] [catalogue_body])
      else if s = long_page
      then Inr (Tag ''[document]'' [] [Tag ''main'' [] [Str Text filler]])
      else if s = [] then Inr (Tag ''[document]'' [] [])
      else Inl (Raised OtherException
             ''The markup you provided was rejected by the parser. Trying a different parser or a different encoding may help.''))"

text \<open>
  Two runtimes that differ only in the order in which a set of selectors is iterated:
  the order in which the selectors were first added, and the reverse of it.
\<close>

definition example_runtime :: runtime where
  "example_runtime =
     \<lparr>html_parser = example_parser,
      json_loads = example_json_loads,
      set_iter = remdups,
      int_max_str_digits = 4300\<rparr>"

definition reversed_runtime :: runtime where
  "reversed_runtime = example_runtime\<lparr>set_iter := rev \<circ> remdups\<rparr>"

text \<open>
  An output of 100000 opening brackets. On it \<open>json.loads\<close> raises \<open>RecursionError\<close>, which
  is not a \<open>JSONDecodeError\<close>; \<open>deep_runtime\<close> is \<open>example_runtime\<close> with this outcome.
\<close>

definition deep_output :: string where
  "deep_output = replicate 100000 (CHR ''['')"

definition deep_runtime :: runtime where
  "deep_runtime =
     example_runtime
       \<lparr>json_loads :=
          (\<lambda>s. if s = deep_output
               then DecodeRaised (Raised OtherException
                      ''maximum recursion depth exceeded while decoding a JSON array from a unicode string'')
               else example_json_loads s)\<rparr>"

text \<open>
  Worlds for a job on \<open>shop_page\<close>. The oracle always answers with the same script.
  In \<open>offline_world\<close> every \<open>pip install\<close> fails. In \<open>warning_world\<close> the script runs,
  prints data and a warning that names the marker. In \<open>flaky_oracle_world\<close> every install
  fails and the oracle raises on the second attempt. In \<open>late_setup_world\<close> the first
  run exits with 0, prints an empty list and a warning that names the marker, and from
  then on the script stops and asks for the manual setup; in \<open>unpackable_world\<close> it asks
  for it on every attempt and the archive cannot be written.
\<close>

definition answer :: generated where
  "answer = \<lparr>scraper_py = ''print(1)'', requirements_txt = ''requests''\<rparr>"

definition offline_world :: world where
  "offline_world =
     \<lparr>run_id = ''run_0badcafe'',
      fetch = Inr shop_page,
      generate_script = (\<lambda>attempt req. Inr answer),
      write_files = (\<lambda>attempt. None),
      pip_install = (\<lambda>attempt. Completed 1 [] ''no network''),
      run_scraper = (\<lambda>attempt. Completed 0 [] []),
      create_zip_package = (\<lambda>attempt. Inr ''downloads/run_0badcafe.zip'')\<rparr>"

definition warning_world :: world where
  "warning_world =
     offline_world
       \<lparr>pip_install := (\<lambda>attempt. Completed 0 [] []),
        run_scraper := (\<lambda>attempt. Completed 0 ''data'' ''Hint: playwright install'')\<rparr>"

definition flaky_oracle_world :: world where
  "flaky_oracle_world =
     offline_world
       \<lparr>generate_script :=
          (\<lambda>attempt req. if attempt = 1
                          then Inl (Raised OtherException ''All API keys failed.'')
                          else Inr answer)\<rparr>"

definition late_setup_world :: world where
  "late_setup_world =
     offline_world
       \<lparr>pip_install := (\<lambda>attempt. Completed 0 [] []),
        run_scraper := (\<lambda>attempt. if attempt = 0
                                  then Completed 0 ''[]'' ''Hint: playwright install''
                                  else Completed 1 [] ''Please run: Playwright install'')\<rparr>"

definition unpackable_world :: world where
  "unpackable_world =
     offline_world
       \<lparr>pip_install := (\<lambda>attempt. Completed 0 [] []),
        run_scraper := (\<lambda>attempt. Completed 1 [] ''Please run: Playwright install''),
        create_zip_package := (\<lambda>attempt. Inl (Raised OtherException ''No space left on device''))\<rparr>"

section \<open>Properties of the execution adapter\<close>

lemma run_script_in_dir_returns:
  "\<exists>r. run_script_in_dir install script = Inr r"
  by (simp add: run_script_in_dir_def split: sum.split)

text \<open>
  C8 (as amended). \<open>run_script_in_dir\<close> never raises and always returns a record of
  stdout, stderr and exit code: a script that exits, with zero or not, is returned as it
  ran; a timeout of either subprocess is returned with exit code 1 and the fixed text
  "Script execution timed out after 60 seconds"; a failed \<open>pip install\<close> is returned in
  the same shape, with exit code 1, no stdout and a stderr that starts with
  "Failed to install dependencies: ".
\<close>

theorem run_script_in_dir_record:
  "(\<exists>r. run_script_in_dir install script = Inr r) \<and>
   run_script_in_dir (Completed 0 install_out install_err) (Completed rc out err) =
     Inr \<lparr>stdout = out, stderr = err, exit_code = rc\<rparr> \<and>
   (exc_cls e = TimeoutExpired \<longrightarrow>
      run_script_in_dir (ProcRaised e) script =
        Inr \<lparr>stdout = [], stderr = ''Script execution timed out after 60 seconds'',
             exit_code = 1\<rparr> \<and>
      run_script_in_dir (Completed 0 install_out install_err) (ProcRaised e) =
        Inr \<lparr>stdout = [], stderr = ''Script execution timed out after 60 seconds'',
             exit_code = 1\<rparr>) \<and>
   (install_rc \<noteq> 0 \<longrightarrow>
      run_script_in_dir (Completed install_rc install_out install_err) script =
        Inr \<lparr>stdout = [],
             stderr = ''Failed to install dependencies: '' @
                        strip (install_err @ ''\<newline>'' @ install_out),
             exit_code = 1\<rparr>)"
  by (simp add: run_script_in_dir_def run_script_try_def split: sum.split)

theorem run_script_in_dir_record_witness:
  "exc_cls (Raised TimeoutExpired ''timed out'') = TimeoutExpired \<and> (2::int) \<noteq> 0 \<and>
   run_script_in_dir (Completed 0 ''ok'' []) (Completed 3 ''[]'' ''Traceback'') =
     Inr \<lparr>stdout = ''[]'', stderr = ''Traceback'', exit_code = 3\<rparr> \<and>
   run_script_in_dir (Completed 0 ''ok'' []) (ProcRaised (Raised TimeoutExpired ''timed out'')) =
     Inr \<lparr>stdout = [], stderr = ''Script execution timed out after 60 seconds'',
          exit_code = 1\<rparr> \<and>
   run_script_in_dir (Completed 2 ''ok'' []) (Completed 0 ''[]'' []) =
     Inr \<lparr>stdout = [],
          stderr = ''Failed to install dependencies: '' @ strip ([] @ ''\<newline>'' @ ''ok''),
          exit_code = 1\<rparr>"
  using run_script_in_dir_record [of "Completed 0 ''ok'' []" "Completed 0 ''[]'' []"
      "''ok''" "[]" 3 "''[]''" "''Traceback''" "Raised TimeoutExpired ''timed out''" 2]
  by simp

text \<open>
  C8 as stated fails in its last part: the record returned for a failed \<open>pip install\<close>
  is also the record returned for a script that ran and failed with the same text on
  stderr, so the caller cannot tell the two apart.
\<close>

theorem install_failure_not_distinct:
  "run_script_in_dir (Completed 1 [] ''x'') (Completed 0 [] []) =
   run_script_in_dir (Completed 0 [] []) (Completed 1 [] ''Failed to install dependencies: x'')"
  by (simp add: run_script_in_dir_def run_script_try_def strip_def lstrip_def rstrip_def
      is_space_def)

section \<open>Properties of the output validator\<close>

lemma bit_length_le: "n < 2 ^ k \<Longrightarrow> bit_length n \<le> k"
proof (induction k arbitrary: n)
  case 0
  then show ?case by (simp add: bit_length.simps)
next
  case (Suc k)
  then have "n div 2 < 2 ^ k" by auto
  from Suc.IH [OF this] show ?case by (subst bit_length.simps) simp
qed

lemma bit_length_ge: "2 ^ k \<le> n \<Longrightarrow> k < bit_length n"
proof (induction k arbitrary: n)
  case 0
  then show ?case by (subst bit_length.simps) auto
next
  case (Suc k)
  then have "2 ^ k \<le> n div 2" by auto
  moreover have "0 < n" using Suc.prems by (cases n) auto
  ultimately show ?case using Suc.IH [of "n div 2"] by (subst bit_length.simps) auto
qed

lemma bit_length_lower: "0 < n \<Longrightarrow> 2 ^ (bit_length n - 1) \<le> n"
proof (induction n rule: bit_length.induct)
  case (1 n)
  show ?case
  proof (cases "n div 2 = 0")
    case True
    with 1 show ?thesis by (subst bit_length.simps, subst bit_length.simps) auto
  next
    case False
    with 1 have "2 ^ (bit_length (n div 2) - 1) \<le> n div 2" by simp
    moreover have "0 < bit_length (n div 2)" using False by (subst bit_length.simps) simp
    ultimately show ?thesis using 1
      apply (subst bit_length.simps) apply (cases "bit_length (n div 2)") apply auto done
  qed
qed

lemma float_of_nat_exact: "n < 2 ^ 53 \<Longrightarrow> float_of_nat n = Inr n"
  using bit_length_le [of n 53] by (simp add: float_of_nat_def)

lemma float_of_nat_overflow:
  assumes "2 ^ 1024 \<le> n"
  shows "float_of_nat n = Inl (Raised OtherException ''int too large to convert to float'')"
proof -
  define b where "b = bit_length n"
  define s where "s = b - 53"
  have b: "1024 < b" unfolding b_def using assms by (rule bit_length_ge)
  have n0: "0 < n" using assms by (cases n) auto
  have low: "2 ^ (b - 1) \<le> n" unfolding b_def using n0 by (rule bit_length_lower)
  have split: "b - 1 = 52 + s" using b by (simp add: s_def)
  have pa: "(2::nat) ^ (52 + s) = 2 ^ 52 * 2 ^ s" by (rule power_add)
  have "(2::nat) ^ 52 * 2 ^ s \<le> n" using low unfolding split pa .
  then have q: "(2::nat) ^ 52 \<le> n div 2 ^ s"
    by (simp only: less_eq_div_iff_mult_less_eq zero_less_power zero_less_numeral)
  have "(2::nat) ^ 1024 \<le> 2 ^ (b - 1)" using b by (intro power_increasing) auto
  also have "\<dots> = 2 ^ 52 * 2 ^ s" unfolding split pa ..
  also have "\<dots> \<le> (n div 2 ^ s) * 2 ^ s" using q by (rule mult_le_mono1)
  finally have big: "(2::nat) ^ 1024 \<le> (n div 2 ^ s) * 2 ^ s" .
  have "(n div 2 ^ s) * 2 ^ s \<le> (n div 2 ^ s + 1) * 2 ^ s" by (rule mult_le_mono1) simp
  with big have big1: "(2::nat) ^ 1024 \<le> (n div 2 ^ s + 1) * 2 ^ s" by (rule order_trans)
  have nb: "\<not> b \<le> 53" using b by simp
  show ?thesis
    unfolding float_of_nat_def Let_def b_def [symmetric] s_def [symmetric]
    using nb big big1 by (simp del: power_numeral add: Let_def)
qed

lemma validate_list_verdict:
  assumes "first_number user_prompt = Some ds"
    and "int_of_digits rt ds = Inr requested_count"
    and "float_of_nat requested_count = Inr f"
    and "data \<noteq> []"
  shows "validate_list rt data user_prompt =
     (if 2 * length data < f
      then Inr \<lparr>valid = False,
             feedback = ''Only found '' @ str_nat (length data) @ '' items, but '' @
               str_nat requested_count @
               '' were requested. The scraper may need better selectors.''\<rparr>
      else if wants_images user_prompt \<and> \<not> has_urls data
      then Inr \<lparr>valid = False,
             feedback = ''Found data but no URLs detected. For image scraping, expected to find image URLs.''\<rparr>
      else Inr \<lparr>valid = True,
             feedback = ''Successfully extracted '' @ str_nat (length data) @ '' items''\<rparr>)"
  using assms by (simp add: validate_list_def count_check_def less_than_half_def)

text \<open>
  C5 (as amended). Let the output decode to a JSON list and let the objective contain a
  decimal number, the first one being \<open>requested_count\<close>, which the interpreter converts
  to an \<open>int\<close> and to a double \<open>f\<close> (\<open>f\<close> is \<open>requested_count\<close> itself below \<open>2 ^ 53\<close>).
  An empty list is invalid with the empty-list feedback, whatever the number. A list
  that is not empty is invalid with the "Only found" feedback when its length is less
  than \<open>f \<times> 0.5\<close>, and valid, when the objective names no image keyword, when its length
  is at least \<open>f \<times> 0.5\<close>.
\<close>

theorem validate_count_rule:
  assumes "json_loads rt out = Decoded (JList data)"
    and "strip out \<noteq> []"
    and "first_number user_prompt = Some ds"
    and "int_of_digits rt ds = Inr requested_count"
    and "float_of_nat requested_count = Inr f"
  shows "(data = [] \<longrightarrow>
            validate_scraper_results rt out user_prompt =
              \<lparr>valid = False,
               feedback = ''The scraper returned an empty list. This could mean the CSS selectors are wrong or the data is loaded dynamically. Please try again.''\<rparr>) \<and>
         (data \<noteq> [] \<and> 2 * length data < f \<longrightarrow>
            validate_scraper_results rt out user_prompt =
              \<lparr>valid = False,
               feedback = ''Only found '' @ str_nat (length data) @ '' items, but '' @
                 str_nat requested_count @
                 '' were requested. The scraper may need better selectors.''\<rparr>) \<and>
         (data \<noteq> [] \<and> f \<le> 2 * length data \<and> \<not> wants_images user_prompt \<longrightarrow>
            validate_scraper_results rt out user_prompt =
              \<lparr>valid = True,
               feedback = ''Successfully extracted '' @ str_nat (length data) @ '' items''\<rparr>) \<and>
         (requested_count < 2 ^ 53 \<longrightarrow> f = requested_count)"
proof -
  have empty: "validate_list rt [] user_prompt =
      Inr \<lparr>valid = False,
           feedback = ''The scraper returned an empty list. This could mean the CSS selectors are wrong or the data is loaded dynamically. Please try again.''\<rparr>"
    by (simp add: validate_list_def)
  have v: "validate_scraper_results rt out user_prompt =
      (case validate_list rt data user_prompt of
         Inr v \<Rightarrow> v
       | Inl e \<Rightarrow> \<lparr>valid = False, feedback = ''Error validating results: '' @ exc_str e\<rparr>)"
    using assms(1,2) by (simp add: validate_scraper_results_def validate_try_def)
  have exact: "requested_count < 2 ^ 53 \<longrightarrow> f = requested_count"
    using assms(5) float_of_nat_exact [of requested_count] by auto
  show ?thesis
    using exact validate_list_verdict [OF assms(3,4,5)]
    by (auto simp: v empty)
qed

lemma str_nat_3: "str_nat (Suc (Suc (Suc 0))) = ''3''" "str_nat 10 = ''10''" "str_nat 6 = ''6''"
  by (simp_all add: str_nat.simps digit_char_def char_of_def bit_Suc_0_iff)

theorem validate_count_rule_witness:
  \<open>validate_scraper_results example_runtime ''[{"a": 1}, {"a": 2}, {"a": 3}]'' ''get 10 items'' =
     \<lparr>valid = False,
      feedback = ''Only found 3 items, but 10 were requested. The scraper may need better selectors.''\<rparr> \<and>
   validate_scraper_results example_runtime
       ''[{"a": 1}, {"a": 1}, {"a": 1}, {"a": 1}, {"a": 1}, {"a": 1}]'' ''get 5 items'' =
     \<lparr>valid = True, feedback = ''Successfully extracted 6 items''\<rparr> \<and>
   validate_scraper_results example_runtime ''[]'' ''get 5 items'' =
     \<lparr>valid = False,
      feedback = ''The scraper returned an empty list. This could mean the CSS selectors are wrong or the data is loaded dynamically. Please try again.''\<rparr>\<close>
proof -
  have n10: "first_number ''get 10 items'' = Some ''10''"
    and n5: "first_number ''get 5 items'' = Some ''5''"
    by (simp_all add: first_number_def is_digit_def)
  have i10: "int_of_digits example_runtime ''10'' = Inr 10"
    and i5: "int_of_digits example_runtime ''5'' = Inr 5"
    by (simp_all add: int_of_digits_def digits_value_def example_runtime_def)
  have f10: "float_of_nat 10 = Inr 10" and f5: "float_of_nat 5 = Inr 5"
    by (simp_all add: float_of_nat_exact)
  have d3: \<open>json_loads example_runtime ''[{"a": 1}, {"a": 2}, {"a": 3}]'' =
      Decoded (JList [JDict [(''a'', JInt 1)], JDict [(''a'', JInt 2)], JDict [(''a'', JInt 3)]])\<close>
    and d6: \<open>json_loads example_runtime
        ''[{"a": 1}, {"a": 1}, {"a": 1}, {"a": 1}, {"a": 1}, {"a": 1}]'' =
      Decoded (JList (replicate 6 (JDict [(''a'', JInt 1)])))\<close>
    and d0: "json_loads example_runtime ''[]'' = Decoded (JList [])"
    by (simp_all add: example_runtime_def example_json_loads_def)
  have s3: \<open>strip ''[{"a": 1}, {"a": 2}, {"a": 3}]'' \<noteq> []\<close>
    and s6: \<open>strip ''[{"a": 1}, {"a": 1}, {"a": 1}, {"a": 1}, {"a": 1}, {"a": 1}]'' \<noteq> []\<close>
    and s0: "strip ''[]'' \<noteq> []"
    by (simp_all add: strip_def lstrip_def rstrip_def is_space_def)
  have w: "\<not> wants_images ''get 5 items''"
    by (simp add: wants_images_def lower_def lower_char_def char_of_def bit_Suc_0_iff)
  show ?thesis
    using validate_count_rule [OF d3 s3 n10 i10 f10] validate_count_rule [OF d6 s6 n5 i5 f5]
      validate_count_rule [OF d0 s0 n5 i5 f5] w
    by (simp add: str_nat_3)
qed

lemma first_number_between:
  assumes "\<forall>c \<in> set before. \<not> is_digit c" and "ds \<noteq> []" and "\<forall>c \<in> set ds. is_digit c"
    and "\<not> is_digit c0"
  shows "first_number (before @ ds @ c0 # rest) = Some ds"
proof -
  obtain d ds' where ds: "ds = d # ds'" using assms(2) by (cases ds) auto
  then have d: "is_digit d" using assms(3) by simp
  have "dropWhile (\<lambda>c. \<not> is_digit c) (before @ ds @ c0 # rest) = ds @ c0 # rest"
    using assms(1) d by (simp add: dropWhile_append2 ds)
  moreover have "takeWhile is_digit (ds @ c0 # rest) = ds"
    using assms(3,4) by (simp add: takeWhile_append2)
  ultimately show ?thesis by (simp add: first_number_def ds)
qed

lemma shift_zeros:
  "foldl (\<lambda>acc c. 10 * acc + (of_char c - 48)) (a::nat) (replicate n (CHR ''0'')) = a * 10 ^ n"
  by (induction n arbitrary: a) simp_all

lemma digits_value_zeros:
  "digits_value (ds @ replicate n (CHR ''0'')) = digits_value ds * 10 ^ n"
  by (simp add: digits_value_def shift_zeros)

lemma huge_count_value: "digits_value huge_count = 10 ^ 309"
  using digits_value_zeros [of "''1''" 309]
  by (simp add: huge_count_def digits_value_def)

lemma huge_objective_number: "first_number huge_objective = Some huge_count"
  unfolding huge_objective_def
  by (rule first_number_between) (auto simp: huge_count_def is_digit_def)

text \<open>
  C5 as stated fails twice. With the objective "get 0 items" the empty list has at
  least \<open>0 \<times> 0.5\<close> records and is still invalid. With a requested count beyond the
  largest double, the product raises \<open>OverflowError\<close> and the feedback is that of the
  handler, not a count.
\<close>

theorem count_rule_counterexample:
  \<open>json_loads example_runtime ''[]'' = Decoded (JList []) \<and>
   first_number ''get 0 items'' = Some ''0'' \<and>
   digits_value ''0'' \<le> 2 * length ([] :: json list) \<and>
   \<not> wants_images ''get 0 items'' \<and>
   \<not> valid (validate_scraper_results example_runtime ''[]'' ''get 0 items'') \<and>
   first_number huge_objective = Some huge_count \<and>
   digits_value huge_count = 10 ^ 309 \<and>
   validate_scraper_results example_runtime ''[{"a": 1}, {"a": 2}, {"a": 3}]'' huge_objective =
     \<lparr>valid = False,
      feedback = ''Error validating results: int too large to convert to float''\<rparr>\<close>
proof -
  have "(2::nat) ^ 1024 \<le> digits_value huge_count"
    by (simp add: huge_count_value)
  then have f: "float_of_nat (digits_value huge_count) =
      Inl (Raised OtherException ''int too large to convert to float'')"
    by (rule float_of_nat_overflow)
  have i: "int_of_digits example_runtime huge_count = Inr (digits_value huge_count)"
    by (simp add: int_of_digits_def example_runtime_def huge_count_def)
  have jl: "json_loads example_runtime = example_json_loads"
    by (simp add: example_runtime_def)
  have big: \<open>validate_scraper_results example_runtime ''[{"a": 1}, {"a": 2}, {"a": 3}]''
       huge_objective =
     \<lparr>valid = False,
      feedback = ''Error validating results: int too large to convert to float''\<rparr>\<close>
    by (simp add: validate_scraper_results_def validate_try_def validate_list_def
        count_check_def less_than_half_def huge_objective_number i f jl example_json_loads_def
        strip_def lstrip_def rstrip_def is_space_def)
  have small: "\<not> valid (validate_scraper_results example_runtime ''[]'' ''get 0 items'')"
    by (simp add: validate_scraper_results_def validate_try_def validate_list_def
        jl example_json_loads_def strip_def lstrip_def rstrip_def is_space_def)
  show ?thesis
    by (simp add: big small huge_objective_number huge_count_value jl example_json_loads_def)
      (simp add: first_number_def is_digit_def digits_value_def wants_images_def lower_def
        lower_char_def char_of_def bit_Suc_0_iff)
qed

lemma lstrip_starts: "lstrip s = c # r \<Longrightarrow> \<not> is_space c"
  unfolding lstrip_def using hd_dropWhile [of is_space s] by auto

lemma strip_starts: "strip s = c # r \<Longrightarrow> \<not> is_space c"
  unfolding strip_def by (rule lstrip_starts)

lemma rstrip_keeps_head: "\<not> is_space c \<Longrightarrow> \<exists>r. rstrip (c # w) = c # r"
  unfolding rstrip_def
  by (auto simp: dropWhile_append intro: exI [of _ "rev (dropWhile is_space (rev w))"])

lemma strip_nonblank: "\<not> is_space c \<Longrightarrow> strip (c # w) \<noteq> []"
proof -
  assume c: "\<not> is_space c"
  then obtain r where "rstrip (c # w) = c # r" using rstrip_keeps_head by blast
  then show ?thesis using c by (simp add: strip_def lstrip_def)
qed

lemma split_on_head: "c \<noteq> d \<Longrightarrow> \<exists>w ws. split_on d (c # cs) = (c # w) # ws"
  by (cases "split_on d cs") auto

lemma newline_is_space: "is_space (CHR ''\<newline>'')"
  by (simp add: is_space_def)

lemma first_line_nonblank:
  assumes "strip out \<noteq> []"
  shows "\<exists>line \<in> set (split_on (CHR ''\<newline>'') (strip out)). strip line \<noteq> []"
proof -
  from assms obtain c r where s: "strip out = c # r" by (cases "strip out") auto
  then have c: "\<not> is_space c" by (rule strip_starts)
  then have "c \<noteq> CHR ''\<newline>''" using newline_is_space by auto
  then obtain w ws where "split_on (CHR ''\<newline>'') (c # r) = (c # w) # ws"
    using split_on_head by blast
  then show ?thesis using c s strip_nonblank [OF c, of w] by auto
qed

lemma split_on_nonempty: "split_on d s \<noteq> []"
  by (induction s) (auto split: list.split)

lemma validate_list_not_generic: "validate_list rt data user_prompt \<noteq> Inr generic_verdict"
  by (auto simp: validate_list_def count_check_def generic_verdict_def Let_def
      split: option.split sum.split bool.split)

text \<open>
  C10 (as amended). An output with a character that is not white space, on which
  \<open>json.loads\<close> raises \<open>JSONDecodeError\<close>, is valid, the feedback giving the number of lines
  of the stripped output. If \<open>json.loads\<close> raises another exception on it, the verdict is
  invalid with the feedback "Error validating results: " and the text of the exception.
  The invalid verdict "The scraper output doesn't appear to contain structured data" is
  returned exactly when the output is not blank and decodes to a scalar.
\<close>

theorem validate_non_json:
  "(json_loads rt out = JSONDecodeError \<and> strip out \<noteq> [] \<longrightarrow>
      validate_scraper_results rt out user_prompt =
        \<lparr>valid = True,
         feedback = ''Successfully extracted '' @
           str_nat (length (split_on (CHR ''\<newline>'') (strip out))) @ '' lines of data''\<rparr>) \<and>
   (json_loads rt out = DecodeRaised e \<and> strip out \<noteq> [] \<longrightarrow>
      validate_scraper_results rt out user_prompt =
        \<lparr>valid = False, feedback = ''Error validating results: '' @ exc_str e\<rparr>) \<and>
   (validate_scraper_results rt out user_prompt =
      \<lparr>valid = False,
       feedback = ''The scraper output doesn't appear to contain structured data''\<rparr> \<longleftrightarrow>
      strip out \<noteq> [] \<and> (\<exists>j. json_loads rt out = Decoded j \<and> is_scalar j))"
proof (intro conjI impI)
  assume a: "json_loads rt out = JSONDecodeError \<and> strip out \<noteq> []"
  then have "\<exists>line \<in> set (split_on (CHR ''\<newline>'') (strip out)). strip line \<noteq> []"
    using first_line_nonblank by blast
  then show "validate_scraper_results rt out user_prompt =
        \<lparr>valid = True,
         feedback = ''Successfully extracted '' @
           str_nat (length (split_on (CHR ''\<newline>'') (strip out))) @ '' lines of data''\<rparr>"
    using a split_on_nonempty [of "CHR ''\<newline>''" "strip out"]
    by (simp add: validate_scraper_results_def validate_try_def)
next
  assume "json_loads rt out = DecodeRaised e \<and> strip out \<noteq> []"
  then show "validate_scraper_results rt out user_prompt =
      \<lparr>valid = False, feedback = ''Error validating results: '' @ exc_str e\<rparr>"
    by (simp add: validate_scraper_results_def validate_try_def)
next
  have "validate_scraper_results rt out user_prompt = generic_verdict \<longleftrightarrow>
      strip out \<noteq> [] \<and> (\<exists>j. json_loads rt out = Decoded j \<and> is_scalar j)"
  proof (cases "strip out = []")
    case True
    then show ?thesis
      by (simp add: validate_scraper_results_def validate_try_def generic_verdict_def)
  next
    case False
    note nonblank = this
    show ?thesis
    proof (cases "json_loads rt out")
      case (Decoded j)
      show ?thesis
      proof (cases "is_scalar j")
        case True
        then show ?thesis using Decoded nonblank
          by (cases j) (simp_all add: validate_scraper_results_def validate_try_def)
      next
        case False
        then show ?thesis using Decoded nonblank validate_list_not_generic
          by (cases j)
            (auto simp: validate_scraper_results_def validate_try_def generic_verdict_def
              split: sum.split)
      qed
    next
      case JSONDecodeError
      then show ?thesis
        using nonblank first_line_nonblank [OF nonblank]
          split_on_nonempty [of "CHR ''\<newline>''" "strip out"]
        by (simp add: validate_scraper_results_def validate_try_def generic_verdict_def)
    next
      case (DecodeRaised e)
      then show ?thesis using nonblank
        by (simp add: validate_scraper_results_def validate_try_def generic_verdict_def)
    qed
  qed
  then show "validate_scraper_results rt out user_prompt =
      \<lparr>valid = False,
       feedback = ''The scraper output doesn't appear to contain structured data''\<rparr> \<longleftrightarrow>
      strip out \<noteq> [] \<and> (\<exists>j. json_loads rt out = Decoded j \<and> is_scalar j)"
    by (simp only: generic_verdict_def)
qed

lemma deep_output_nonblank: "strip deep_output \<noteq> []"
proof -
  have e: "deep_output = CHR ''['' # replicate 99999 (CHR ''['')"
    unfolding deep_output_def by (simp add: replicate_Suc [symmetric] del: replicate_Suc)
  have "strip (CHR ''['' # replicate 99999 (CHR ''['')) \<noteq> []"
    by (rule strip_nonblank) (simp add: is_space_def)
  then show ?thesis unfolding e .
qed

lemma deep_output_raises:
  "json_loads deep_runtime deep_output =
     DecodeRaised (Raised OtherException
       ''maximum recursion depth exceeded while decoding a JSON array from a unicode string'')"
  by (simp add: deep_runtime_def)

theorem validate_non_json_witness:
  "validate_scraper_results example_runtime ''line1\<newline>line2'' ''get text'' =
     \<lparr>valid = True, feedback = ''Successfully extracted 2 lines of data''\<rparr> \<and>
   validate_scraper_results deep_runtime deep_output ''get text'' =
     \<lparr>valid = False,
      feedback = ''Error validating results: maximum recursion depth exceeded while decoding a JSON array from a unicode string''\<rparr> \<and>
   validate_scraper_results example_runtime ''42'' ''get text'' =
     \<lparr>valid = False,
      feedback = ''The scraper output doesn't appear to contain structured data''\<rparr> \<and>
   validate_scraper_results example_runtime ''[]'' ''get text'' \<noteq>
     \<lparr>valid = False,
      feedback = ''The scraper output doesn't appear to contain structured data''\<rparr>"
proof -
  have d: "json_loads example_runtime ''line1\<newline>line2'' = JSONDecodeError"
    and s: "strip ''line1\<newline>line2'' = ''line1\<newline>line2''"
    and d42: "json_loads example_runtime ''42'' = Decoded (JInt 42)"
    and s42: "strip ''42'' \<noteq> []"
    and d0: "json_loads example_runtime ''[]'' = Decoded (JList [])"
    by (simp_all add: example_runtime_def example_json_loads_def strip_def lstrip_def
        rstrip_def is_space_def)
  have n2: "str_nat (Suc (Suc 0)) = ''2''"
    by (simp add: str_nat.simps digit_char_def char_of_def bit_Suc_0_iff)
  show ?thesis
    using validate_non_json [of example_runtime "''line1\<newline>line2''" "''get text''"]
      validate_non_json [of deep_runtime deep_output "''get text''"
        "Raised OtherException ''maximum recursion depth exceeded while decoding a JSON array from a unicode string''"]
      validate_non_json [of example_runtime "''42''" "''get text''"]
      validate_non_json [of example_runtime "''[]''" "''get text''"]
    by (simp add: d s d42 s42 d0 n2 deep_output_nonblank deep_output_raises exc_str.simps)
qed

text \<open>
  C10 as stated fails. The output of 100000 opening brackets is not blank and does not
  parse as JSON, yet \<open>json.loads\<close> does not raise \<open>JSONDecodeError\<close> on it but
  \<open>RecursionError\<close>, which only the outer handler catches: the verdict is invalid.
\<close>

theorem non_json_invalid:
  "json_loads deep_runtime deep_output =
     DecodeRaised (Raised OtherException
       ''maximum recursion depth exceeded while decoding a JSON array from a unicode string'') \<and>
   strip deep_output \<noteq> [] \<and>
   validate_scraper_results deep_runtime deep_output ''get text'' =
     \<lparr>valid = False,
      feedback = ''Error validating results: maximum recursion depth exceeded while decoding a JSON array from a unicode string''\<rparr>"
  by (simp add: deep_output_nonblank deep_output_raises validate_scraper_results_def
      validate_try_def exc_str.simps)

section \<open>Properties of the job\<close>

lemma expand_html_context_returns: "\<exists>s. expand_html_context rt full_html last_snippet = Inr s"
  by (simp add: expand_html_context_def split: sum.split)

lemma record_failure_fields [simp]:
  "failures (record_failure st a b c d) =
     failures st @ [\<lparr>reason = a, code = b, stdout_sample = c, stderr_sample = d,
                     html_snippet = relevant_html st\<rparr>]"
  "calls (record_failure st a b c d) = calls st"
  "relevant_html (record_failure st a b c d) = relevant_html st"
  "current_code (record_failure st a b c d) = current_code st"
  by (simp_all add: record_failure_def)

lemma trace_ok_request:
  assumes ok: "trace_ok rt w p page cs fs"
    and len: "length cs = k" "length fs = k"
    and h: "history req = fs"
    and first: "k = 0 \<longrightarrow> html_content req = extract_relevant_html rt page p"
    and later: "0 < k \<longrightarrow> expand_html_context rt page (html_content (cs ! (k - 1))) =
                  Inr (html_content req)"
  shows "trace_ok rt w p page (cs @ [req]) fs"
  unfolding trace_ok_def
proof (intro conjI allI impI)
  fix j assume j: "j < length (cs @ [req])"
  show "history ((cs @ [req]) ! j) = take j fs"
    using ok j len h by (cases "j < k") (auto simp: trace_ok_def nth_append)
  show "j \<le> length fs" using j len by simp
  show "html_content ((cs @ [req]) ! j) = extract_relevant_html rt page p" if "j = 0"
    using ok j len first that by (cases "k = 0") (auto simp: trace_ok_def nth_append)
  show "expand_html_context rt page (html_content ((cs @ [req]) ! (j - 1))) =
          Inr (html_content ((cs @ [req]) ! j))" if "0 < j"
  proof (cases "j < k")
    case True
    then show ?thesis using ok len that by (auto simp: trace_ok_def nth_append)
  next
    case False
    then have "j = k" using j len by simp
    then show ?thesis using later that len by (auto simp: nth_append)
  qed
next
  fix j assume j: "j < length fs"
  then have jk: "j < k" using len by simp
  show "j < length (cs @ [req])" using jk len by simp
  show "html_snippet (fs ! j) = html_content ((cs @ [req]) ! j)"
    using ok j jk len by (auto simp: trace_ok_def nth_append)
  fix g assume "generate_script w j ((cs @ [req]) ! j) = Inr g"
  then show "code (fs ! j) = scraper_py g"
    using ok j jk len by (auto simp: trace_ok_def nth_append)
qed

lemma trace_ok_failure:
  assumes ok: "trace_ok rt w p page (cs @ [req]) fs"
    and len: "length cs = k" "length fs = k"
    and snip: "html_snippet f = html_content req"
    and gen: "\<forall>g. generate_script w k req = Inr g \<longrightarrow> code f = scraper_py g"
  shows "trace_ok rt w p page (cs @ [req]) (fs @ [f])"
  unfolding trace_ok_def
proof (intro conjI allI impI)
  fix j assume j: "j < length (cs @ [req])"
  then have "j \<le> length fs" using len by simp
  then show "history ((cs @ [req]) ! j) = take j (fs @ [f])"
    using ok j by (auto simp: trace_ok_def)
  show "j \<le> length (fs @ [f])" using j len by simp
  show "html_content ((cs @ [req]) ! j) = extract_relevant_html rt page p" if "j = 0"
    using ok j that by (auto simp: trace_ok_def)
  show "expand_html_context rt page (html_content ((cs @ [req]) ! (j - 1))) =
          Inr (html_content ((cs @ [req]) ! j))" if "0 < j"
    using ok j that by (auto simp: trace_ok_def)
next
  fix j assume j: "j < length (fs @ [f])"
  show "j < length (cs @ [req])" using j len by simp
  show "html_snippet ((fs @ [f]) ! j) = html_content ((cs @ [req]) ! j)"
  proof (cases "j < k")
    case True
    then show ?thesis using ok len by (auto simp: trace_ok_def nth_append)
  next
    case False
    then have "j = k" using j len by simp
    then show ?thesis using snip len by (simp add: nth_append)
  qed
  fix g assume g: "generate_script w j ((cs @ [req]) ! j) = Inr g"
  show "code ((fs @ [f]) ! j) = scraper_py g"
  proof (cases "j < k")
    case True
    then show ?thesis using ok len g by (auto simp: trace_ok_def nth_append)
  next
    case False
    then have "j = k" using j len by simp
    then show ?thesis using gen g len by (simp add: nth_append)
  qed
qed

lemma next_attempt_cases:
  "next_attempt k st = (if k = 4 then Break st else Continue st)"
  by (simp add: next_attempt_def max_attempts_def)

lemma recorded_step:
  assumes ok: "trace_ok rt w p page (cs @ [req]) fs"
    and len: "length cs = k" "length fs = k"
    and st: "calls st = cs @ [req]" "failures st = fs" "relevant_html st = html_content req"
    and gen: "\<forall>g. generate_script w k req = Inr g \<longrightarrow> b = scraper_py g"
  shows "step_ok rt w p page k (next_attempt k (record_failure st a b c d))"
proof -
  let ?f = "\<lparr>reason = a, code = b, stdout_sample = c, stderr_sample = d,
             html_snippet = relevant_html st\<rparr>"
  have "trace_ok rt w p page (cs @ [req]) (fs @ [?f])"
    using ok len by (rule trace_ok_failure) (use st gen in simp_all)
  then have "at_attempt rt w p page (k + 1) (record_failure st a b c d)"
    using len st by (auto simp: at_attempt_def nth_append)
  then show ?thesis by (cases "k = 4") (simp_all add: step_ok_def next_attempt_cases)
qed

lemma on_exception_step:
  assumes ok: "trace_ok rt w p page (cs @ [req]) fs"
    and len: "length cs = k" "length fs = k"
    and st: "calls st = cs @ [req]" "failures st = fs" "relevant_html st = html_content req"
    and gen: "\<forall>g. generate_script w k req = Inr g \<longrightarrow> current_code st = Some (scraper_py g)"
  shows "step_ok rt w p page k (on_exception k st e)"
  unfolding on_exception_def
  using ok len st
proof (rule recorded_step)
  show "\<forall>g. generate_script w k req = Inr g \<longrightarrow>
          (case current_code st of None \<Rightarrow> ''Code not generated'' | Some c \<Rightarrow> c) = scraper_py g"
    using gen by auto
qed

lemma after_execution_step:
  assumes ok: "trace_ok rt w p page (cs @ [req]) fs"
    and len: "length cs = k" "length fs = k"
    and st: "calls st = cs @ [req]" "failures st = fs" "relevant_html st = html_content req"
    and gen: "generate_script w k req = Inr g" "current_code st = Some (scraper_py g)"
  shows "step_ok rt w p page k (after_execution rt w p k st (scraper_py g) r)"
proof -
  have exc: "step_ok rt w p page k (on_exception k st e)" for e
    using ok len st by (rule on_exception_step) (use gen in simp)
  have rec: "step_ok rt w p page k (next_attempt k (record_failure st a (scraper_py g) c d))"
    for a c d
    using ok len st by (rule recorded_step) (use gen in simp)
  have ret: "step_ok rt w p page k (Return res st)" for res
    using ok len st by (simp add: step_ok_def left_at_def)
  show ?thesis
    unfolding after_execution_def Let_def
    by (simp add: exc rec ret split: sum.split)
qed

lemma attempt_body_step:
  assumes at: "at_attempt rt w p page k st"
  shows "step_ok rt w p page k (attempt_body rt w p u page outline k st)"
proof -
  from at have len: "length (calls st) = k" "length (failures st) = k"
    and ok: "trace_ok rt w p page (calls st) (failures st)"
    and first: "k = 0 \<longrightarrow> relevant_html st = extract_relevant_html rt page p"
    and later: "0 < k \<longrightarrow> relevant_html st = html_content (calls st ! (k - 1))"
    by (simp_all add: at_attempt_def)
  define excerpt where "excerpt =
    (if 0 < k then (case expand_html_context rt page (html_snippet (last (failures st))) of
                      Inr x \<Rightarrow> x | Inl e \<Rightarrow> [])
     else relevant_html st)"
  define smap where "smap = (if 0 < k then None else Some outline)"
  define st1 where "st1 = (if 0 < k then st\<lparr>relevant_html := excerpt\<rparr> else st)"
  define req where "req = \<lparr>prompt = p, url = u, html_content = excerpt,
                      history = failures st, structure_map = smap\<rparr>"
  define st2 where "st2 = st1\<lparr>calls := calls st1 @ [req]\<rparr>"
  have nonempty: "0 < k \<longleftrightarrow> (0 < k \<and> failures st \<noteq> [])" using len by auto
  have expanded: "0 < k \<Longrightarrow> expand_html_context rt page (html_snippet (last (failures st))) = Inr excerpt"
    using expand_html_context_returns [of rt page "html_snippet (last (failures st))"]
    by (auto simp: excerpt_def)
  have rel1: "relevant_html st1 = excerpt" by (simp add: st1_def excerpt_def)
  have body: "attempt_body rt w p u page outline k st =
      (case generate_script w k req of
         Inl e \<Rightarrow> on_exception k st2 e
       | Inr result \<Rightarrow>
           (let st3 = st2\<lparr>current_code := Some (scraper_py result)\<rparr>
            in case write_files w k of
                 Some e \<Rightarrow> on_exception k st3 e
               | None \<Rightarrow>
                   (case run_script_in_dir (pip_install w k) (run_scraper w k) of
                      Inl e \<Rightarrow> on_exception k st3 e
                    | Inr execution_result \<Rightarrow>
                        after_execution rt w p k st3 (scraper_py result) execution_result)))"
  proof (cases "0 < k")
    case True
    then have "failures st \<noteq> []" using len by auto
    then show ?thesis
      using True expanded [OF True]
      by (simp add: attempt_body_def Let_def req_def st2_def st1_def smap_def
          split: sum.split option.split)
  next
    case False
    then show ?thesis
      by (simp add: attempt_body_def Let_def req_def st2_def st1_def smap_def excerpt_def
          split: sum.split option.split)
  qed
  have snippet: "0 < k \<Longrightarrow> html_snippet (last (failures st)) = html_content (calls st ! (k - 1))"
  proof -
    assume k: "0 < k"
    then have "k - 1 < length (failures st)" using len by simp
    then have "html_snippet (failures st ! (k - 1)) = html_content (calls st ! (k - 1))"
      using ok by (simp add: trace_ok_def)
    moreover have "last (failures st) = failures st ! (k - 1)"
      using k len by (metis last_conv_nth length_0_conv less_numeral_extra(3))
    ultimately show ?thesis by simp
  qed
  have ok2: "trace_ok rt w p page (calls st @ [req]) (failures st)"
    using ok len
  proof (rule trace_ok_request)
    show "history req = failures st" by (simp add: req_def)
    show "k = 0 \<longrightarrow> html_content req = extract_relevant_html rt page p"
      using first by (simp add: req_def excerpt_def)
    show "0 < k \<longrightarrow> expand_html_context rt page (html_content (calls st ! (k - 1))) =
            Inr (html_content req)"
      using expanded snippet by (simp add: req_def)
  qed
  have calls2: "calls st2 = calls st @ [req]" and fails2: "failures st2 = failures st"
    and rel2: "relevant_html st2 = html_content req"
    by (simp_all add: st2_def st1_def req_def excerpt_def)
  show ?thesis
  proof (cases "generate_script w k req")
    case (Inl e)
    have "step_ok rt w p page k (on_exception k st2 e)"
      using ok2 len calls2 fails2 rel2 by (rule on_exception_step) (simp add: Inl)
    then show ?thesis by (simp add: body Inl)
  next
    case (Inr result)
    define st3 where "st3 = st2\<lparr>current_code := Some (scraper_py result)\<rparr>"
    have calls3: "calls st3 = calls st @ [req]" and fails3: "failures st3 = failures st"
      and rel3: "relevant_html st3 = html_content req"
      and code3: "current_code st3 = Some (scraper_py result)"
      using calls2 fails2 rel2 by (simp_all add: st3_def)
    have exc: "step_ok rt w p page k (on_exception k st3 e)" for e
      using ok2 len calls3 fails3 rel3 by (rule on_exception_step) (simp add: Inr code3)
    have aft: "step_ok rt w p page k (after_execution rt w p k st3 (scraper_py result) r)" for r
      using ok2 len calls3 fails3 rel3 Inr code3 by (rule after_execution_step)
    show ?thesis
      by (simp add: body Inr Let_def st3_def [symmetric] exc aft split: option.split sum.split)
  qed
qed

lemma attempts_loop_ok:
  assumes "at_attempt rt w p page k st" and "k + n = 5"
  shows "loop_ok rt w p page (attempts (attempt_body rt w p u page outline) [k ..< 5] st)"
  using assms
proof (induction n arbitrary: k st)
  case 0
  then show ?case by (simp add: loop_ok_def)
next
  case (Suc n)
  then have k: "k < 5" by simp
  then have unfold: "[k ..< 5] = k # [Suc k ..< 5]" by (simp add: upt_rec)
  have step: "step_ok rt w p page k (attempt_body rt w p u page outline k st)"
    using Suc.prems(1) by (rule attempt_body_step)
  show ?case
  proof (cases "attempt_body rt w p u page outline k st")
    case (Return r st')
    then show ?thesis using step k by (auto simp: unfold loop_ok_def step_ok_def)
  next
    case (Break st')
    then show ?thesis using step by (auto simp: unfold loop_ok_def step_ok_def)
  next
    case (Continue st')
    then have "at_attempt rt w p page (Suc k) st'" using step by (simp add: step_ok_def)
    moreover have "Suc k + n = 5" using Suc.prems(2) by simp
    ultimately have "loop_ok rt w p page
        (attempts (attempt_body rt w p u page outline) [Suc k ..< 5] st')"
      by (rule Suc.IH)
    then show ?thesis using Continue by (simp add: unfold)
  next
    case (Propagate e st')
    then show ?thesis using step by (simp add: step_ok_def)
  qed
qed

lemma initial_at_attempt: "at_attempt rt w p page 0 (initial_state rt page p)"
  by (simp add: at_attempt_def initial_state_def trace_ok_def)

lemma run_loop_ok: "loop_ok rt w p page (run_loop rt w p u page)"
  unfolding run_loop_def max_attempts_def
  by (rule attempts_loop_ok [OF initial_at_attempt]) simp

lemma job_trace:
  assumes "fetch w = Inr page" and "run_scraping_job rt w p u = (res, st)"
  shows "trace_ok rt w p page (calls st) (failures st) \<and> length (calls st) \<le> 5"
proof -
  have ok: "loop_ok rt w p page (run_loop rt w p u page)" by (rule run_loop_ok)
  show ?thesis
  proof (cases "run_loop rt w p u page")
    case (Return r st')
    then show ?thesis using ok assms
      by (auto simp: run_scraping_job_def loop_ok_def left_at_def)
  next
    case (Break st')
    then show ?thesis using ok assms
      by (auto simp: run_scraping_job_def loop_ok_def at_attempt_def)
  next
    case (Continue st')
    then show ?thesis using ok by (simp add: loop_ok_def)
  next
    case (Propagate e st')
    then show ?thesis using ok by (simp add: loop_ok_def)
  qed
qed

text \<open>
  C6 (as amended). In the retry sequence of a job the excerpt sent on the first attempt
  is the one the relevance reducer gives for the fetched page, and the excerpt sent on
  every later attempt is what the context expander returns for the page and the excerpt
  of the attempt before. Nothing is said of its length.
\<close>

theorem excerpt_of_attempt:
  assumes "fetch w = Inr page" and "run_scraping_job rt w p u = (res, st)"
    and "i < length (calls st)"
  shows "(i = 0 \<longrightarrow> html_content (calls st ! i) = extract_relevant_html rt page p) \<and>
         (0 < i \<longrightarrow> expand_html_context rt page (html_content (calls st ! (i - 1))) =
                      Inr (html_content (calls st ! i)))"
  using job_trace [OF assms(1,2)] assms(3) by (simp add: trace_ok_def)

lemma after_execution_fails:
  assumes "\<not> (clean_run r \<and> valid (validate_scraper_results rt (stdout r) p))"
    and "\<not> contains marker (lower (stderr r))"
  shows "\<exists>st'. after_execution rt w p k st c r = next_attempt k st'"
  using assms by (auto simp: after_execution_def clean_run_def Let_def)

lemma failing_attempt_body:
  assumes "fails_validation rt w p k"
  shows "\<exists>st'. attempt_body rt w p u page outline k st = next_attempt k st'"
proof -
  have run: "run_script_in_dir (pip_install w k) (run_scraper w k) = Inr r \<Longrightarrow>
      \<exists>st'. after_execution rt w p k st0 c r = next_attempt k st'" for r st0 c
    using assms by (intro after_execution_fails) (auto simp: fails_validation_def execution_def)
  have exc: "\<exists>st'. on_exception k st0 e = next_attempt k st'" for st0 e
    by (auto simp: on_exception_def)
  have tail: "\<exists>st'.
      (case generate_script w k req of
         Inl e \<Rightarrow> on_exception k st2 e
       | Inr result \<Rightarrow>
           (let st3 = st2\<lparr>current_code := Some (scraper_py result)\<rparr>
            in case write_files w k of
                 Some e \<Rightarrow> on_exception k st3 e
               | None \<Rightarrow>
                   (case run_script_in_dir (pip_install w k) (run_scraper w k) of
                      Inl e \<Rightarrow> on_exception k st3 e
                    | Inr execution_result \<Rightarrow>
                        after_execution rt w p k st3 (scraper_py result) execution_result))) =
      next_attempt k st'" for req st2
    by (simp add: Let_def exc run split: sum.split option.split)
  obtain s where ex: "expand_html_context rt page (html_snippet (last (failures st))) = Inr s"
    using expand_html_context_returns by blast
  have "\<exists>req st2. attempt_body rt w p u page outline k st =
      (case generate_script w k req of
         Inl e \<Rightarrow> on_exception k st2 e
       | Inr result \<Rightarrow>
           (let st3 = st2\<lparr>current_code := Some (scraper_py result)\<rparr>
            in case write_files w k of
                 Some e \<Rightarrow> on_exception k st3 e
               | None \<Rightarrow>
                   (case run_script_in_dir (pip_install w k) (run_scraper w k) of
                      Inl e \<Rightarrow> on_exception k st3 e
                    | Inr execution_result \<Rightarrow>
                        after_execution rt w p k st3 (scraper_py result) execution_result)))"
  proof (cases "0 < k \<and> failures st \<noteq> []")
    case True
    show ?thesis
      apply (rule exI [of _ "\<lparr>prompt = p, url = u, html_content = s,
                      history = failures st, structure_map = None\<rparr>"])
      apply (rule exI [of _ "st\<lparr>relevant_html := s, calls := calls st @
                [\<lparr>prompt = p, url = u, html_content = s,
                      history = failures st, structure_map = None\<rparr>]\<rparr>"])
      unfolding attempt_body_def if_P [OF True]
      by (simp add: ex Let_def split: sum.split option.split)
  next
    case False
    show ?thesis
      apply (rule exI [of _ "\<lparr>prompt = p, url = u, html_content = relevant_html st,
                      history = failures st, structure_map = Some outline\<rparr>"])
      apply (rule exI [of _ "st\<lparr>calls := calls st @
                [\<lparr>prompt = p, url = u, html_content = relevant_html st,
                      history = failures st, structure_map = Some outline\<rparr>]\<rparr>"])
      unfolding attempt_body_def if_not_P [OF False]
      by (simp add: Let_def split: sum.split option.split)
  qed
  then show ?thesis using tail by metis
qed

lemma failing_attempt_step:
  assumes "fails_validation rt w p k" and "at_attempt rt w p page k st"
  shows "\<exists>st'. at_attempt rt w p page (k + 1) st' \<and>
           attempt_body rt w p u page outline k st = (if k = 4 then Break st' else Continue st')"
proof -
  obtain st' where b: "attempt_body rt w p u page outline k st = next_attempt k st'"
    using failing_attempt_body [OF assms(1)] by blast
  have "step_ok rt w p page k (attempt_body rt w p u page outline k st)"
    using assms(2) by (rule attempt_body_step)
  then have "at_attempt rt w p page (k + 1) st'"
    unfolding b by (cases "k = 4") (simp_all add: next_attempt_cases step_ok_def)
  then show ?thesis using b by (auto simp: next_attempt_cases)
qed

lemma failing_attempts:
  assumes "at_attempt rt w p page k st" and "k + n = 5" and "\<forall>i < 5. fails_validation rt w p i"
  shows "\<exists>st'. at_attempt rt w p page 5 st' \<and>
           attempts (attempt_body rt w p u page outline) [k ..< 5] st = Break st'"
  using assms(1,2)
proof (induction n arbitrary: k st)
  case 0
  then show ?case by simp
next
  case (Suc n)
  then have k: "k < 5" by simp
  then have unfold: "[k ..< 5] = k # [Suc k ..< 5]" by (simp add: upt_rec)
  have "fails_validation rt w p k" using assms(3) k by simp
  then obtain st' where at: "at_attempt rt w p page (k + 1) st'"
    and b: "attempt_body rt w p u page outline k st = (if k = 4 then Break st' else Continue st')"
    using failing_attempt_step [OF _ Suc.prems(1)] by blast
  show ?case
  proof (cases "k = 4")
    case True
    then show ?thesis using at b by (auto simp: unfold)
  next
    case False
    have "\<exists>st''. at_attempt rt w p page 5 st'' \<and>
        attempts (attempt_body rt w p u page outline) [Suc k ..< 5] st' = Break st''"
      using at Suc.prems(2) by (intro Suc.IH) simp_all
    then show ?thesis using b False by (simp add: unfold)
  qed
qed


section \<open>The examples, evaluated\<close>

lemmas str_eval = strip_def lstrip_def rstrip_def is_space_def lower_def lower_char_def
  char_of_def bit_Suc_0_iff split_def

lemmas dom_eval = find_tag_def find_named_def select_def select_one_def matches_compound_def
  ascii_lower_def render_def attribute_string_def sorted_attrs_def empty_element_tags_def
  output_ready_def substitute_xml_def get_text_def interesting_string_types_def
  attr_get_def attr_is_def classes_of_def

lemmas shop_eval = shop_doc_def shop_body_def

lemma shop_parse: "html_parser example_runtime shop_page = Inr shop_doc"
  by (simp add: example_runtime_def example_parser_def)

lemma shop_stripped: "stripped_soup shop_doc = (shop_doc, [])"
  by (simp add: stripped_soup_def shop_eval)

lemma shop_main: "first_match main_selectors (shop_doc, []) = None"
  by (simp add: shop_eval main_selectors_def dom_eval)

lemma shop_find_body:
  "find_named ''body'' (shop_doc, []) = Some (shop_body, [Tag ''html'' [] [shop_body], shop_doc])"
  by (simp add: shop_eval dom_eval)

lemma shop_head: "head_parts (shop_doc, []) = []"
  by (simp add: head_parts_def shop_eval dom_eval)

lemma shop_select:
  "select (by_tag ''li'') (shop_body, [Tag ''html'' [] [shop_body], shop_doc]) =
     [(Tag ''li'' [] [Str Text ''x''],
       [Tag ''ul'' [] [Tag ''li'' [] [Str Text ''x'']], shop_body, Tag ''html'' [] [shop_body],
        shop_doc])]"
  "select (class_has ''item'') (shop_body, [Tag ''html'' [] [shop_body], shop_doc]) = []"
  by (simp_all add: shop_eval dom_eval)

lemma shop_render:
  "render (Tag ''ul'' [] [Tag ''li'' [] [Str Text ''x'']]) = ''<ul><li>x</li></ul>''"
  "render shop_body = second_excerpt"
  "render (Tag ''div'' [] [Tag ''p'' [] [Str Text ''hello'']]) = third_excerpt"
  by (simp_all add: shop_eval dom_eval second_excerpt_def third_excerpt_def)

lemma words_item: "split (lower ''item'') = [''item'']"
  by (simp add: str_eval)

lemma added_item: "added_selectors [''item''] = [by_tag ''li'', class_has ''item'']"
  by (simp add: added_selectors_def structural_keywords_def)

lemma set_iter_example: "set_iter example_runtime = remdups"
  by (simp add: example_runtime_def)

lemma shop_names: "name_of shop_body = ''body''" "name_of shop_doc = ''[document]''"
  by (simp_all add: shop_eval)

lemma shop_parts:
  "output_parts example_runtime (shop_doc, []) ''item'' = [''<ul><li>x</li></ul>'', second_excerpt]"
  by (simp add: output_parts_def Let_def words_item added_item set_iter_example shop_main
      shop_find_body shop_head shop_select contextual_element_def shop_render
      shop_names second_excerpt_def)

lemma shop_first_excerpt:
  "extract_relevant_html example_runtime shop_page ''item'' = first_excerpt"
  by (simp add: extract_relevant_html_def extract_try_def shop_parse shop_stripped shop_parts
      truncate_combined_def max_len_def second_excerpt_def first_excerpt_def)

lemma excerpt_parse:
  "html_parser example_runtime first_excerpt =
     Inr (Tag ''[document]'' []
           [Tag ''ul'' [] [Tag ''li'' [] [Str Text ''x'']], Str Text ''\<newline>'', shop_body])"
  "html_parser example_runtime second_excerpt = Inr (Tag ''[document]'' [] [shop_body])"
  "html_parser example_runtime third_excerpt =
     Inr (Tag ''[document]'' [] [Tag ''div'' [] [Tag ''p'' [] [Str Text ''hello'']]])"
  by (simp_all add: example_runtime_def example_parser_def shop_page_def first_excerpt_def
      second_excerpt_def third_excerpt_def)

lemma shop_body_or_full: "body_or_full (shop_doc, []) shop_page = second_excerpt"
  by (simp add: body_or_full_def shop_find_body shop_render)

lemma first_anchor:
  "find_tag (\<lambda>t. name_of t \<noteq> ''html'' \<and> name_of t \<noteq> ''body'')
     (Tag ''[document]'' []
        [Tag ''ul'' [] [Tag ''li'' [] [Str Text ''x'']], Str Text ''\<newline>'', shop_body], []) =
   Some (Tag ''ul'' [] [Tag ''li'' [] [Str Text ''x'']],
         [Tag ''[document]'' []
            [Tag ''ul'' [] [Tag ''li'' [] [Str Text ''x'']], Str Text ''\<newline>'', shop_body]])"
  by (simp add: find_tag_def)

lemma first_anchor_text: "get_text (Tag ''ul'' [] [Tag ''li'' [] [Str Text ''x'']]) = ''x''"
  "split ''x'' = [''x'']"
  by (simp_all add: dom_eval str_eval)

lemma first_anchor_found:
  "text_matches [''x''] (shop_doc, []) =
     [(Str Text ''xyz'', [shop_body, Tag ''html'' [] [shop_body], shop_doc]),
      (Str Text ''x'',
       [Tag ''li'' [] [Str Text ''x''], Tag ''ul'' [] [Tag ''li'' [] [Str Text ''x'']], shop_body,
        Tag ''html'' [] [shop_body], shop_doc])]"
  by (simp add: text_matches_def shop_eval)

lemma shop_second_excerpt:
  "expand_html_context example_runtime shop_page first_excerpt = Inr second_excerpt"
  by (simp add: expand_html_context_def expand_try_def shop_parse excerpt_parse Let_def
      first_anchor first_anchor_text first_anchor_found shop_body_or_full)

lemma second_anchor:
  "find_tag (\<lambda>t. name_of t \<noteq> ''html'' \<and> name_of t \<noteq> ''body'')
     (Tag ''[document]'' [] [shop_body], []) =
   Some (Tag ''div'' [] [Tag ''p'' [] [Str Text ''hello'']],
         [shop_body, Tag ''[document]'' [] [shop_body]])"
  by (simp add: find_tag_def shop_eval)

lemma second_anchor_text:
  "get_text (Tag ''div'' [] [Tag ''p'' [] [Str Text ''hello'']]) = ''hello''"
  "split ''hello'' = [''hello'']"
  by (simp_all add: dom_eval str_eval)

lemma second_anchor_found:
  "text_matches [''hello''] (shop_doc, []) =
     [(Str Text ''hello'',
       [Tag ''p'' [] [Str Text ''hello''], Tag ''div'' [] [Tag ''p'' [] [Str Text ''hello'']],
        shop_body, Tag ''html'' [] [shop_body], shop_doc])]"
  by (simp add: text_matches_def shop_eval)

lemma shop_third_excerpt:
  "expand_html_context example_runtime shop_page second_excerpt = Inr third_excerpt"
  by (simp add: expand_html_context_def expand_try_def shop_parse excerpt_parse Let_def
      second_anchor second_anchor_text second_anchor_found shop_render)

lemma excerpt_lengths: "length third_excerpt < length second_excerpt"
  by (simp add: second_excerpt_def third_excerpt_def)

section \<open>Jobs on the examples\<close>

lemma third_anchor:
  "find_tag (\<lambda>t. name_of t \<noteq> ''html'' \<and> name_of t \<noteq> ''body'')
     (Tag ''[document]'' [] [Tag ''div'' [] [Tag ''p'' [] [Str Text ''hello'']]], []) =
   Some (Tag ''div'' [] [Tag ''p'' [] [Str Text ''hello'']],
         [Tag ''[document]'' [] [Tag ''div'' [] [Tag ''p'' [] [Str Text ''hello'']]]])"
  by (simp add: find_tag_def)

lemma shop_fourth_excerpt:
  "expand_html_context example_runtime shop_page third_excerpt = Inr third_excerpt"
  by (simp add: expand_html_context_def expand_try_def shop_parse excerpt_parse Let_def
      third_anchor second_anchor_text second_anchor_found shop_render)

lemma attempts_list: "[0 ..< max_attempts] = [0, 1, 2, 3, 4]"
  by (simp add: max_attempts_def upt_rec)

lemma no_marker: "\<not> contains marker (lower ''Failed to install dependencies: no network'')"
  by (simp add: marker_def str_eval)

lemma offline_execution:
  "run_script_in_dir (Completed 1 [] ''no network'') (Completed 0 [] []) =
     Inr \<lparr>stdout = [], stderr = ''Failed to install dependencies: no network'', exit_code = 1\<rparr>"
  by (simp add: run_script_in_dir_def run_script_try_def str_eval)

lemma str_int_1: "str_int 1 = ''1''"
  by (simp add: str_int_def str_nat.simps digit_char_def char_of_def bit_Suc_0_iff)

lemmas job_eval = attempt_body_def Let_def after_execution_def on_exception_def
  record_failure_def next_attempt_def max_attempts_def truncate_preview_def

text \<open>
  C2, at an input where the code departs from it. Every install fails and the oracle
  raises on the second attempt (attempt 1). The history sent on attempt 2 has two entries,
  and its entry for attempt 1 gives as generated code the script of attempt 0, although
  attempt 1 generated none.
\<close>

theorem stale_code_recorded:
  "generate_script flaky_oracle_world 1
     (calls (snd (run_scraping_job example_runtime flaky_oracle_world ''item''
        ''http://shop.example'')) ! 1) =
     Inl (Raised OtherException ''All API keys failed.'') \<and>
   map code (history (calls (snd (run_scraping_job example_runtime flaky_oracle_world ''item''
       ''http://shop.example'')) ! 2)) = [''print(1)'', ''print(1)'']"
proof -
  have run: "calls (snd (run_scraping_job example_runtime flaky_oracle_world ''item''
       ''http://shop.example'')) ! 2 =
     \<lparr>prompt = ''item'', url = ''http://shop.example'', html_content = third_excerpt,
      history =
        [\<lparr>reason = ''Script execution failed with exit code 1. See STDERR for details.'',
          code = ''print(1)'', stdout_sample = [],
          stderr_sample = ''Failed to install dependencies: no network'',
          html_snippet = first_excerpt\<rparr>,
         \<lparr>reason = ''An unexpected error occurred during script generation or execution: All API keys failed.'',
          code = ''print(1)'', stdout_sample = [],
          stderr_sample = ''All API keys failed.'',
          html_snippet = second_excerpt\<rparr>],
      structure_map = None\<rparr>"
    apply (simp add: run_scraping_job_def run_loop_def attempts_list flaky_oracle_world_def
        offline_world_def initial_state_def shop_first_excerpt)
    apply (simp add: job_eval offline_execution no_marker shop_second_excerpt
        shop_third_excerpt shop_fourth_excerpt str_int_1 answer_def)
    done
  show ?thesis
    by (simp add: run) (simp add: flaky_oracle_world_def)
qed

lemma offline_fails: "fails_validation example_runtime offline_world ''item'' i"
  by (simp add: fails_validation_def execution_def offline_world_def offline_execution no_marker
      clean_run_def)

lemma offline_run:
  "\<exists>st. at_attempt example_runtime offline_world ''item'' shop_page 5 st \<and>
        run_scraping_job example_runtime offline_world ''item'' u = (failed_result st, st)"
proof -
  have f: "fetch offline_world = Inr shop_page" by (simp add: offline_world_def)
  obtain st where at: "at_attempt example_runtime offline_world ''item'' shop_page 5 st"
    and b: "run_loop example_runtime offline_world ''item'' u shop_page = Break st"
    unfolding run_loop_def max_attempts_def
    using failing_attempts [OF initial_at_attempt, of 5 example_runtime offline_world "''item''"
        shop_page u] offline_fails
    by auto
  show ?thesis using at b f by (auto simp: run_scraping_job_def)
qed

lemma trace_ok_first:
  "trace_ok rt w p page cs fs \<Longrightarrow> 0 < length cs \<Longrightarrow>
     html_content (cs ! 0) = extract_relevant_html rt page p"
  unfolding trace_ok_def by blast

lemma trace_ok_next:
  "trace_ok rt w p page cs fs \<Longrightarrow> Suc j < length cs \<Longrightarrow>
     expand_html_context rt page (html_content (cs ! j)) = Inr (html_content (cs ! Suc j))"
  unfolding trace_ok_def by (metis diff_Suc_1 zero_less_Suc)

lemma offline_excerpts:
  "length (calls (snd (run_scraping_job example_runtime offline_world ''item'' u))) = 5"
  "html_content (calls (snd (run_scraping_job example_runtime offline_world ''item'' u)) ! 0) =
     first_excerpt"
  "html_content (calls (snd (run_scraping_job example_runtime offline_world ''item'' u)) ! Suc 0) =
     second_excerpt"
  "html_content (calls (snd (run_scraping_job example_runtime offline_world ''item'' u)) ! 2) =
     third_excerpt"
proof -
  obtain st where at: "at_attempt example_runtime offline_world ''item'' shop_page 5 st"
    and run: "run_scraping_job example_runtime offline_world ''item'' u = (failed_result st, st)"
    using offline_run by blast
  have len: "length (calls st) = 5" and ok: "trace_ok example_runtime offline_world ''item''
      shop_page (calls st) (failures st)"
    using at by (simp_all add: at_attempt_def)
  have e0: "html_content (calls st ! 0) = first_excerpt"
    using trace_ok_first [OF ok] len by (simp add: shop_first_excerpt)
  have "expand_html_context example_runtime shop_page (html_content (calls st ! 0)) =
      Inr (html_content (calls st ! Suc 0))"
    using ok by (rule trace_ok_next) (simp add: len)
  then have e1: "html_content (calls st ! Suc 0) = second_excerpt"
    by (simp add: e0 shop_second_excerpt)
  have "expand_html_context example_runtime shop_page (html_content (calls st ! Suc 0)) =
      Inr (html_content (calls st ! Suc (Suc 0)))"
    using ok by (rule trace_ok_next) (simp add: len)
  then have e2: "html_content (calls st ! Suc (Suc 0)) = third_excerpt"
    by (simp add: e1 shop_third_excerpt)
  have two: "(2::nat) = Suc (Suc 0)" by simp
  show "length (calls (snd (run_scraping_job example_runtime offline_world ''item'' u))) = 5"
    "html_content (calls (snd (run_scraping_job example_runtime offline_world ''item'' u)) ! 0) =
       first_excerpt"
    "html_content (calls (snd (run_scraping_job example_runtime offline_world ''item'' u)) ! Suc 0) =
       second_excerpt"
    "html_content (calls (snd (run_scraping_job example_runtime offline_world ''item'' u)) ! 2) =
       third_excerpt"
    using e0 e1 e2 by (simp_all add: run len two)
qed

text \<open>
  C6 as stated fails: on \<open>shop_page\<close> with every install failing, the excerpt sent on
  attempt 2 is shorter than the excerpt sent on attempt 1.
\<close>

theorem excerpt_shrinks:
  "length (html_content
      (calls (snd (run_scraping_job example_runtime offline_world ''item''
         ''http://shop.example'')) ! 2)) <
   length (html_content
      (calls (snd (run_scraping_job example_runtime offline_world ''item''
         ''http://shop.example'')) ! 1))"
  by (simp add: offline_excerpts excerpt_lengths)

theorem excerpt_of_attempt_witness:
  "fetch offline_world = Inr shop_page \<and>
   2 < length (calls (snd (run_scraping_job example_runtime offline_world ''item''
         ''http://shop.example''))) \<and>
   expand_html_context example_runtime shop_page
     (html_content (calls (snd (run_scraping_job example_runtime offline_world ''item''
         ''http://shop.example'')) ! 1)) =
   Inr (html_content (calls (snd (run_scraping_job example_runtime offline_world ''item''
         ''http://shop.example'')) ! 2))"
proof -
  have f: "fetch offline_world = Inr shop_page" by (simp add: offline_world_def)
  have r: "run_scraping_job example_runtime offline_world ''item'' ''http://shop.example'' =
      (fst (run_scraping_job example_runtime offline_world ''item'' ''http://shop.example''),
       snd (run_scraping_job example_runtime offline_world ''item'' ''http://shop.example''))"
    by simp
  have l: "2 < length (calls (snd (run_scraping_job example_runtime offline_world ''item''
         ''http://shop.example'')))"
    by (simp add: offline_excerpts)
  show ?thesis using excerpt_of_attempt [OF f r l] f l by simp
qed


lemma attempt_body_unfold:
  "\<exists>req st2. attempt_body rt w p u page outline k st =
      (case generate_script w k req of
         Inl e \<Rightarrow> on_exception k st2 e
       | Inr result \<Rightarrow>
           (let st3 = st2\<lparr>current_code := Some (scraper_py result)\<rparr>
            in case write_files w k of
                 Some e \<Rightarrow> on_exception k st3 e
               | None \<Rightarrow>
                   (case run_script_in_dir (pip_install w k) (run_scraper w k) of
                      Inl e \<Rightarrow> on_exception k st3 e
                    | Inr execution_result \<Rightarrow>
                        after_execution rt w p k st3 (scraper_py result) execution_result)))"
proof -
  obtain s where ex: "expand_html_context rt page (html_snippet (last (failures st))) = Inr s"
    using expand_html_context_returns by blast
  show ?thesis
  proof (cases "0 < k \<and> failures st \<noteq> []")
    case True
    show ?thesis
      apply (rule exI [of _ "\<lparr>prompt = p, url = u, html_content = s,
                      history = failures st, structure_map = None\<rparr>"])
      apply (rule exI [of _ "st\<lparr>relevant_html := s, calls := calls st @
                [\<lparr>prompt = p, url = u, html_content = s,
                      history = failures st, structure_map = None\<rparr>]\<rparr>"])
      unfolding attempt_body_def if_P [OF True]
      by (simp add: ex Let_def split: sum.split option.split)
  next
    case False
    show ?thesis
      apply (rule exI [of _ "\<lparr>prompt = p, url = u, html_content = relevant_html st,
                      history = failures st, structure_map = Some outline\<rparr>"])
      apply (rule exI [of _ "st\<lparr>calls := calls st @
                [\<lparr>prompt = p, url = u, html_content = relevant_html st,
                      history = failures st, structure_map = Some outline\<rparr>]\<rparr>"])
      unfolding attempt_body_def if_not_P [OF False]
      by (simp add: Let_def split: sum.split option.split)
  qed
qed

lemma reached_attempt:
  assumes "at_attempt rt w p page k st" and "k + n = i" and "i < 5"
    and "attempts (attempt_body rt w p u page outline) [k ..< i] st = Break st1"
  shows "at_attempt rt w p page i st1 \<and>
         attempts (attempt_body rt w p u page outline) [k ..< 5] st =
         attempts (attempt_body rt w p u page outline) [i ..< 5] st1"
  using assms(1,2,4)
proof (induction n arbitrary: k st)
  case 0
  then show ?case by simp
next
  case (Suc n)
  then have k: "k < i" by simp
  then have k4: "k \<noteq> 4" and k5: "k < 5" using assms(3) by simp_all
  have u1: "[k ..< i] = k # [Suc k ..< i]" using k by (simp add: upt_rec)
  have u2: "[k ..< 5] = k # [Suc k ..< 5]" using k5 by (simp add: upt_rec)
  have n: "Suc k + n = i" using Suc.prems(2) by simp
  have ok: "step_ok rt w p page k (attempt_body rt w p u page outline k st)"
    using Suc.prems(1) by (rule attempt_body_step)
  show ?case
  proof (cases "attempt_body rt w p u page outline k st")
    case (Continue st')
    then have at: "at_attempt rt w p page (Suc k) st'"
      using ok by (simp add: step_ok_def)
    have rest: "attempts (attempt_body rt w p u page outline) [Suc k ..< i] st' = Break st1"
      using Suc.prems(3) by (simp add: u1 Continue)
    have "at_attempt rt w p page i st1 \<and>
        attempts (attempt_body rt w p u page outline) [Suc k ..< 5] st' =
        attempts (attempt_body rt w p u page outline) [i ..< 5] st1"
      using at n rest by (rule Suc.IH)
    then show ?thesis by (simp add: u2 Continue)
  next
    case (Break st')
    then show ?thesis using ok k4 by (simp add: step_ok_def)
  next
    case (Return r st')
    then show ?thesis using Suc.prems(3) by (simp add: u1)
  next
    case (Propagate e st')
    then show ?thesis using ok by (simp add: step_ok_def)
  qed
qed

lemma marker_attempt:
  assumes at: "at_attempt rt w p page i st"
    and gen: "\<forall>req. \<exists>g. generate_script w i req = Inr g"
    and wr: "write_files w i = None"
    and ex: "execution w i = Inr r"
    and nc: "\<not> clean_run r"
    and mk: "contains marker (lower (stderr r))"
    and zip: "create_zip_package w i = Inr path"
  shows "\<exists>st'. attempt_body rt w p u page outline i st =
            Return \<lparr>status = ''action_required'',
                    message = ''The script requires Playwright. Please run 'playwright install' and then run the script from the downloaded zip.'',
                    data_preview = None,
                    download_url = Some (''/api/download/'' @ run_id w),
                    zip_path = Some path,
                    final_error = None\<rparr> st' \<and>
           length (calls st') = i + 1 \<and> length (failures st') = i"
proof -
  obtain req st2 where b: "attempt_body rt w p u page outline i st =
      (case generate_script w i req of
         Inl e \<Rightarrow> on_exception i st2 e
       | Inr result \<Rightarrow>
           (let st3 = st2\<lparr>current_code := Some (scraper_py result)\<rparr>
            in case write_files w i of
                 Some e \<Rightarrow> on_exception i st3 e
               | None \<Rightarrow>
                   (case run_script_in_dir (pip_install w i) (run_scraper w i) of
                      Inl e \<Rightarrow> on_exception i st3 e
                    | Inr execution_result \<Rightarrow>
                        after_execution rt w p i st3 (scraper_py result) execution_result)))"
    using attempt_body_unfold by blast
  obtain g where g: "generate_script w i req = Inr g" using gen by blast
  have r: "run_script_in_dir (pip_install w i) (run_scraper w i) = Inr r"
    using ex by (simp add: execution_def)
  define st' where "st' = st2\<lparr>current_code := Some (scraper_py g)\<rparr>"
  have ret: "attempt_body rt w p u page outline i st =
      Return \<lparr>status = ''action_required'',
              message = ''The script requires Playwright. Please run 'playwright install' and then run the script from the downloaded zip.'',
              data_preview = None,
              download_url = Some (''/api/download/'' @ run_id w),
              zip_path = Some path,
              final_error = None\<rparr> st'"
    using nc mk by (auto simp: b g wr r Let_def after_execution_def clean_run_def zip st'_def)
  have "step_ok rt w p page i (attempt_body rt w p u page outline i st)"
    using at by (rule attempt_body_step)
  then have "length (calls st') = i + 1 \<and> length (failures st') = i"
    by (simp add: ret step_ok_def left_at_def)
  then show ?thesis using ret by blast
qed

text \<open>
  C3 (as amended). Let the page be fetched and let attempt \<open>i\<close> be reached: the loop over
  the attempts before \<open>i\<close> runs to its end, in the state \<open>st1\<close>, whatever these attempts
  did (an exception, a script that stopped, a clean run with an invalid output, also one
  whose stderr names the marker, an archive that could not be written). Let attempt \<open>i\<close>
  be executed: the oracle answers and the files are written. If the execution result is
  not a clean run (the exit code is not 0 or stdout is blank), its stderr contains
  "playwright install" in any letter case, and the archive is written, then the job ends
  with status "action_required", the instructions and the reference to the archive,
  after \<open>i + 1\<close> calls of the oracle: no further attempt is made.
\<close>

theorem manual_setup:
  assumes "fetch w = Inr page"
    and "i < max_attempts"
    and "attempts (attempt_body rt w p u page (create_html_structure_map rt page)) [0 ..< i]
           (initial_state rt page p) = Break st1"
    and "\<forall>req. \<exists>g. generate_script w i req = Inr g"
    and "write_files w i = None"
    and "execution w i = Inr r"
    and "\<not> clean_run r"
    and "contains marker (lower (stderr r))"
    and "create_zip_package w i = Inr path"
    and "run_scraping_job rt w p u = (res, st)"
  shows "res = \<lparr>status = ''action_required'',
                message = ''The script requires Playwright. Please run 'playwright install' and then run the script from the downloaded zip.'',
                data_preview = None,
                download_url = Some (''/api/download/'' @ run_id w),
                zip_path = Some path,
                final_error = None\<rparr> \<and>
         length (calls st) = i + 1 \<and> length (failures st) = i"
proof -
  have i5: "i < 5" using assms(2) by (simp add: max_attempts_def)
  let ?body = "attempt_body rt w p u page (create_html_structure_map rt page)"
  have "at_attempt rt w p page i st1 \<and>
      attempts ?body [0 ..< 5] (initial_state rt page p) = attempts ?body [i ..< 5] st1"
    by (rule reached_attempt [OF initial_at_attempt _ i5 assms(3)]) simp
  then have at: "at_attempt rt w p page i st1"
    and pre: "attempts ?body [0 ..< 5] (initial_state rt page p) = attempts ?body [i ..< 5] st1"
    by blast+
  obtain st' where ret: "?body i st1 =
      Return \<lparr>status = ''action_required'',
              message = ''The script requires Playwright. Please run 'playwright install' and then run the script from the downloaded zip.'',
              data_preview = None,
              download_url = Some (''/api/download/'' @ run_id w),
              zip_path = Some path,
              final_error = None\<rparr> st'"
    and len: "length (calls st') = i + 1" "length (failures st') = i"
    using marker_attempt [OF at assms(4-9)] by blast
  have unfold: "[i ..< 5] = i # [Suc i ..< 5]" using i5 by (simp add: upt_rec)
  have "run_loop rt w p u page =
      Return \<lparr>status = ''action_required'',
              message = ''The script requires Playwright. Please run 'playwright install' and then run the script from the downloaded zip.'',
              data_preview = None,
              download_url = Some (''/api/download/'' @ run_id w),
              zip_path = Some path,
              final_error = None\<rparr> st'"
    by (simp add: run_loop_def max_attempts_def pre unfold ret)
  then show ?thesis using assms(1,10) len by (auto simp: run_scraping_job_def)
qed

lemma marker_found: "contains marker (lower ''Please run: Playwright install'')"
  "contains marker (lower ''Hint: playwright install'')"
  by (simp_all add: marker_def str_eval)

lemma late_setup_execution:
  "execution late_setup_world 0 =
     Inr \<lparr>stdout = ''[]'', stderr = ''Hint: playwright install'', exit_code = 0\<rparr>"
  "execution late_setup_world 1 =
     Inr \<lparr>stdout = [], stderr = ''Please run: Playwright install'', exit_code = 1\<rparr>"
  by (simp_all add: execution_def late_setup_world_def offline_world_def run_script_in_dir_def
      run_script_try_def)

lemma late_setup_run:
  "run_script_in_dir (Completed 0 [] []) (Completed 0 ''[]'' ''Hint: playwright install'') =
     Inr \<lparr>stdout = ''[]'', stderr = ''Hint: playwright install'', exit_code = 0\<rparr>"
  by (simp add: run_script_in_dir_def run_script_try_def)

lemma empty_list_invalid:
  "validate_scraper_results example_runtime ''[]'' ''item'' =
     \<lparr>valid = False,
      feedback = ''The scraper returned an empty list. This could mean the CSS selectors are wrong or the data is loaded dynamically. Please try again.''\<rparr>"
  by (simp add: validate_scraper_results_def validate_try_def validate_list_def
      example_runtime_def example_json_loads_def str_eval)

lemma late_setup_first_attempt:
  "attempts (attempt_body example_runtime late_setup_world ''item'' ''http://shop.example''
       shop_page (create_html_structure_map example_runtime shop_page)) [0 ..< 1]
     (initial_state example_runtime shop_page ''item'') =
   Break
     \<lparr>failures =
        [\<lparr>reason = ''The scraper returned an empty list. This could mean the CSS selectors are wrong or the data is loaded dynamically. Please try again.'',
          code = ''print(1)'', stdout_sample = ''[]'',
          stderr_sample = ''Hint: playwright install'',
          html_snippet = first_excerpt\<rparr>],
      relevant_html = first_excerpt,
      current_code = Some ''print(1)'',
      calls =
        [\<lparr>prompt = ''item'', url = ''http://shop.example'', html_content = first_excerpt,
          history = [],
          structure_map = Some (create_html_structure_map example_runtime shop_page)\<rparr>]\<rparr>"
  apply (simp add: initial_state_def shop_first_excerpt late_setup_world_def offline_world_def)
  apply (simp add: job_eval late_setup_run empty_list_invalid str_eval answer_def)
  done

theorem manual_setup_witness:
  "fetch late_setup_world = Inr shop_page \<and>
   execution late_setup_world 0 =
     Inr \<lparr>stdout = ''[]'', stderr = ''Hint: playwright install'', exit_code = 0\<rparr> \<and>
   contains marker (lower ''Hint: playwright install'') \<and>
   attempts (attempt_body example_runtime late_setup_world ''item'' ''http://shop.example''
       shop_page (create_html_structure_map example_runtime shop_page)) [0 ..< 1]
     (initial_state example_runtime shop_page ''item'') =
   Break
     \<lparr>failures =
        [\<lparr>reason = ''The scraper returned an empty list. This could mean the CSS selectors are wrong or the data is loaded dynamically. Please try again.'',
          code = ''print(1)'', stdout_sample = ''[]'',
          stderr_sample = ''Hint: playwright install'',
          html_snippet = first_excerpt\<rparr>],
      relevant_html = first_excerpt,
      current_code = Some ''print(1)'',
      calls =
        [\<lparr>prompt = ''item'', url = ''http://shop.example'', html_content = first_excerpt,
          history = [],
          structure_map = Some (create_html_structure_map example_runtime shop_page)\<rparr>]\<rparr> \<and>
   write_files late_setup_world 1 = None \<and>
   execution late_setup_world 1 =
     Inr \<lparr>stdout = [], stderr = ''Please run: Playwright install'', exit_code = 1\<rparr> \<and>
   \<not> clean_run \<lparr>stdout = [], stderr = ''Please run: Playwright install'', exit_code = 1\<rparr> \<and>
   contains marker (lower ''Please run: Playwright install'') \<and>
   create_zip_package late_setup_world 1 = Inr ''downloads/run_0badcafe.zip'' \<and>
   fst (run_scraping_job example_runtime late_setup_world ''item'' ''http://shop.example'') =
     \<lparr>status = ''action_required'',
      message = ''The script requires Playwright. Please run 'playwright install' and then run the script from the downloaded zip.'',
      data_preview = None,
      download_url = Some ''/api/download/run_0badcafe'',
      zip_path = Some ''downloads/run_0badcafe.zip'',
      final_error = None\<rparr> \<and>
   length (calls (snd (run_scraping_job example_runtime late_setup_world ''item''
     ''http://shop.example''))) = 2"
proof -
  have f: "fetch late_setup_world = Inr shop_page"
    by (simp add: late_setup_world_def offline_world_def)
  have i: "1 < max_attempts" by (simp add: max_attempts_def)
  have gen: "\<forall>req. \<exists>g. generate_script late_setup_world 1 req = Inr g"
    by (simp add: late_setup_world_def offline_world_def)
  have wr: "write_files late_setup_world 1 = None"
    by (simp add: late_setup_world_def offline_world_def)
  have nc: "\<not> clean_run \<lparr>stdout = [], stderr = ''Please run: Playwright install'', exit_code = 1\<rparr>"
    by (simp add: clean_run_def)
  have mk: "contains marker
      (lower (stderr \<lparr>stdout = [], stderr = ''Please run: Playwright install'', exit_code = 1\<rparr>))"
    by (simp add: marker_found)
  have zip: "create_zip_package late_setup_world 1 = Inr ''downloads/run_0badcafe.zip''"
    by (simp add: late_setup_world_def offline_world_def)
  have r: "run_scraping_job example_runtime late_setup_world ''item'' ''http://shop.example'' =
      (fst (run_scraping_job example_runtime late_setup_world ''item'' ''http://shop.example''),
       snd (run_scraping_job example_runtime late_setup_world ''item'' ''http://shop.example''))"
    by simp
  have id: "run_id late_setup_world = ''run_0badcafe''"
    by (simp add: late_setup_world_def offline_world_def)
  have res: "fst (run_scraping_job example_runtime late_setup_world ''item''
        ''http://shop.example'') =
     \<lparr>status = ''action_required'',
      message = ''The script requires Playwright. Please run 'playwright install' and then run the script from the downloaded zip.'',
      data_preview = None,
      download_url = Some ''/api/download/run_0badcafe'',
      zip_path = Some ''downloads/run_0badcafe.zip'',
      final_error = None\<rparr>"
    and len: "length (calls (snd (run_scraping_job example_runtime late_setup_world ''item''
        ''http://shop.example''))) = 2"
    using manual_setup [OF f i late_setup_first_attempt gen wr late_setup_execution(2) nc mk
        zip r]
    by (simp_all add: id)
  show ?thesis
    by (intro conjI) (rule f late_setup_execution marker_found late_setup_first_attempt wr nc
        zip res len)+
qed

lemma warning_execution:
  "run_script_in_dir (Completed 0 [] []) (Completed 0 ''data'' ''Hint: playwright install'') =
     Inr \<lparr>stdout = ''data'', stderr = ''Hint: playwright install'', exit_code = 0\<rparr>"
  by (simp add: run_script_in_dir_def run_script_try_def)

lemma data_valid: "valid (validate_scraper_results example_runtime ''data'' ''item'')"
  by (simp add: validate_scraper_results_def validate_try_def example_runtime_def
      example_json_loads_def str_eval)

lemma setup_execution:
  "run_script_in_dir (Completed 0 [] []) (Completed 1 [] ''Please run: Playwright install'') =
     Inr \<lparr>stdout = [], stderr = ''Please run: Playwright install'', exit_code = 1\<rparr>"
  by (simp add: run_script_in_dir_def run_script_try_def)

text \<open>
  C3 as stated fails. In \<open>warning_world\<close> the script exits with 0 and prints data, its
  stderr names the marker, and the job ends with status "success": the clean run is
  tested first. In \<open>unpackable_world\<close> the script stops, its stderr names the marker, the
  archive cannot be written, and the job goes on to the next attempt and ends with status
  "error".
\<close>

theorem marker_without_action:
  "execution warning_world 0 =
     Inr \<lparr>stdout = ''data'', stderr = ''Hint: playwright install'', exit_code = 0\<rparr> \<and>
   contains marker (lower ''Hint: playwright install'') \<and>
   status (fst (run_scraping_job example_runtime warning_world ''item'' ''http://shop.example'')) =
     ''success'' \<and>
   execution unpackable_world 0 =
     Inr \<lparr>stdout = [], stderr = ''Please run: Playwright install'', exit_code = 1\<rparr> \<and>
   contains marker (lower ''Please run: Playwright install'') \<and>
   status (fst (run_scraping_job example_runtime unpackable_world ''item'' ''http://shop.example'')) =
     ''error''"
proof -
  have a: "execution warning_world 0 =
     Inr \<lparr>stdout = ''data'', stderr = ''Hint: playwright install'', exit_code = 0\<rparr>"
    by (simp add: execution_def warning_world_def offline_world_def warning_execution)
  have b: "status (fst (run_scraping_job example_runtime warning_world ''item''
      ''http://shop.example'')) = ''success''"
    apply (simp add: run_scraping_job_def run_loop_def attempts_list warning_world_def
        offline_world_def initial_state_def)
    apply (simp add: job_eval warning_execution data_valid str_eval)
    done
  have c: "execution unpackable_world 0 =
     Inr \<lparr>stdout = [], stderr = ''Please run: Playwright install'', exit_code = 1\<rparr>"
    by (simp add: execution_def unpackable_world_def offline_world_def setup_execution)
  have d: "status (fst (run_scraping_job example_runtime unpackable_world ''item''
      ''http://shop.example'')) = ''error''"
    apply (simp add: run_scraping_job_def run_loop_def attempts_list unpackable_world_def
        offline_world_def initial_state_def shop_first_excerpt)
    apply (simp add: job_eval setup_execution marker_found shop_second_excerpt
        shop_third_excerpt shop_fourth_excerpt failed_result_def)
    done
  show ?thesis by (simp add: a b c d marker_found)
qed

section \<open>Properties of the relevance reducer and the context expander\<close>

lemma join_member_nonempty: "x \<in> set xs \<Longrightarrow> x \<noteq> [] \<Longrightarrow> join sep xs \<noteq> []"
  by (induction sep xs rule: join.induct) auto

lemma join_many_nonempty:
  assumes "sep \<noteq> []" and "2 \<le> length xs"
  shows "join sep xs \<noteq> []"
proof -
  obtain x y ys where "xs = x # y # ys"
    using assms(2) by (cases xs; cases "tl xs") auto
  then show ?thesis using assms(1) by simp
qed

lemma find_named_is: "find_named name el = Some b \<Longrightarrow> is_tag (fst b) \<and> name_of (fst b) = name"
  by (auto simp: find_named_def find_tag_def find_Some_iff)

lemma render_body_nonempty:
  assumes "is_tag t" and "name_of t = ''body''"
  shows "render t \<noteq> []"
  using assms by (cases t) (simp_all add: render_def)

lemma truncate_combined_length: "length (truncate_combined c) \<le> max_len + length truncation_marker"
  by (simp add: truncate_combined_def)

lemma truncate_combined_nonempty: "c \<noteq> [] \<Longrightarrow> truncate_combined c \<noteq> []"
  by (auto simp: truncate_combined_def max_len_def)

lemma output_parts_body:
  assumes "find_named ''body'' soup = Some b"
  shows "(\<exists>parts. output_parts rt soup p = parts @ [take 15000 (render (fst b))]) \<or>
         2 < length (output_parts rt soup p)"
  using assms unfolding output_parts_def Let_def
  by (auto split: option.split)

lemma output_parts_nonempty:
  assumes "find_named ''body'' soup = Some b"
  shows "join ''\<newline>\<newline>'' (output_parts rt soup p) \<noteq> []"
proof -
  have tag: "is_tag (fst b)" "name_of (fst b) = ''body''"
    using find_named_is [OF assms] by simp_all
  then have "render (fst b) \<noteq> []" by (rule render_body_nonempty)
  then have piece: "take 15000 (render (fst b)) \<noteq> []" by simp
  from output_parts_body [OF assms, of rt p] show ?thesis
  proof
    assume "\<exists>parts. output_parts rt soup p = parts @ [take 15000 (render (fst b))]"
    then obtain parts where "output_parts rt soup p = parts @ [take 15000 (render (fst b))]"
      by blast
    then show ?thesis using piece by (intro join_member_nonempty [of "take 15000 (render (fst b))"]) simp_all
  next
    assume "2 < length (output_parts rt soup p)"
    then show ?thesis by (intro join_many_nonempty) simp_all
  qed
qed

text \<open>
  C4 (as amended). For every document and objective the excerpt has at most 75,000
  characters of content and, when the combined content was longer and only then, the
  22 characters of the truncation marker after them: at most 75,022 characters. When the
  document, after the non-content elements are removed, has a \<open>body\<close> element, the
  excerpt is not empty.
\<close>

theorem excerpt_bounded:
  "length (extract_relevant_html rt html user_prompt) \<le> max_len + length truncation_marker \<and>
   max_len = 75000 \<and> length truncation_marker = 22 \<and>
   (html_parser rt html = Inr parsed \<longrightarrow>
      (max_len < length (join ''\<newline>\<newline>'' (output_parts rt (stripped_soup parsed) user_prompt)) \<longrightarrow>
         extract_relevant_html rt html user_prompt =
           take max_len (join ''\<newline>\<newline>'' (output_parts rt (stripped_soup parsed) user_prompt)) @
           truncation_marker) \<and>
      (length (join ''\<newline>\<newline>'' (output_parts rt (stripped_soup parsed) user_prompt)) \<le> max_len \<longrightarrow>
         extract_relevant_html rt html user_prompt =
           join ''\<newline>\<newline>'' (output_parts rt (stripped_soup parsed) user_prompt)) \<and>
      (find_named ''body'' (stripped_soup parsed) \<noteq> None \<longrightarrow>
         extract_relevant_html rt html user_prompt \<noteq> []))"
proof (intro conjI impI)
  show "length (extract_relevant_html rt html user_prompt) \<le> max_len + length truncation_marker"
  proof (cases "html_parser rt html")
    case (Inl e)
    then show ?thesis by (simp add: extract_relevant_html_def extract_try_def max_len_def)
  next
    case (Inr t)
    then show ?thesis
      using truncate_combined_length by (simp add: extract_relevant_html_def extract_try_def)
  qed
  show "max_len = 75000" by (simp add: max_len_def)
  show "length truncation_marker = 22" by (simp add: truncation_marker_def)
next
  assume p: "html_parser rt html = Inr parsed"
  then have e: "extract_relevant_html rt html user_prompt =
      truncate_combined (join ''\<newline>\<newline>'' (output_parts rt (stripped_soup parsed) user_prompt))"
    by (simp add: extract_relevant_html_def extract_try_def)
  show "extract_relevant_html rt html user_prompt =
      take max_len (join ''\<newline>\<newline>'' (output_parts rt (stripped_soup parsed) user_prompt)) @
      truncation_marker"
    if "max_len < length (join ''\<newline>\<newline>'' (output_parts rt (stripped_soup parsed) user_prompt))"
    using that by (simp add: e truncate_combined_def)
  show "extract_relevant_html rt html user_prompt =
      join ''\<newline>\<newline>'' (output_parts rt (stripped_soup parsed) user_prompt)"
    if "length (join ''\<newline>\<newline>'' (output_parts rt (stripped_soup parsed) user_prompt)) \<le> max_len"
    using that by (simp add: e truncate_combined_def)
  show "extract_relevant_html rt html user_prompt \<noteq> []"
    if "find_named ''body'' (stripped_soup parsed) \<noteq> None"
  proof -
    from that obtain b where "find_named ''body'' (stripped_soup parsed) = Some b" by auto
    then have "join ''\<newline>\<newline>'' (output_parts rt (stripped_soup parsed) user_prompt) \<noteq> []"
      by (rule output_parts_nonempty)
    then show ?thesis unfolding e by (rule truncate_combined_nonempty)
  qed
qed

lemma output_parts_order:
  assumes "set_iter rt1 (added_selectors (split (lower p))) =
           set_iter rt2 (added_selectors (split (lower p)))"
  shows "output_parts rt1 soup p = output_parts rt2 soup p"
  unfolding output_parts_def Let_def assms by (rule refl)

lemma extract_order:
  assumes "html_parser rt1 = html_parser rt2"
    and "set_iter rt1 (added_selectors (split (lower p))) =
         set_iter rt2 (added_selectors (split (lower p)))"
  shows "extract_relevant_html rt1 html p = extract_relevant_html rt2 html p"
  unfolding extract_relevant_html_def extract_try_def assms(1) output_parts_order [OF assms(2)]
  by (rule refl)

lemma short_lists_equal:
  assumes "length xs \<le> 1" and "length ys \<le> 1" and "set xs = set ys"
  shows "xs = ys"
proof (cases xs)
  case Nil
  then show ?thesis using assms(3) by simp
next
  case (Cons x xs')
  then have xs: "xs = [x]" using assms(1) by simp
  then have "set ys = {x}" using assms(3) by simp
  then show ?thesis using assms(2) xs by (cases ys) auto
qed

lemma single_selector_order:
  assumes "iterates_sets rt1" and "iterates_sets rt2" and "length (remdups A) \<le> 1"
  shows "set_iter rt1 A = set_iter rt2 A"
proof -
  have card: "card (set A) \<le> 1" using assms(3) by (simp add: length_remdups_card_conv)
  have one: "length (set_iter rt A) \<le> 1" if "iterates_sets rt" for rt
  proof -
    have "distinct (set_iter rt A)" and "set (set_iter rt A) = set A"
      using that by (simp_all add: iterates_sets_def)
    then have "length (set_iter rt A) = card (set A)" by (metis distinct_card)
    then show ?thesis using card by simp
  qed
  have "set (set_iter rt1 A) = set (set_iter rt2 A)"
    using assms(1,2) by (simp add: iterates_sets_def)
  then show ?thesis using one [OF assms(1)] one [OF assms(2)] by (intro short_lists_equal)
qed

text \<open>
  C9 (as amended). The excerpt is determined by the document, the objective, the parser
  and the order in which the set of active selectors is iterated: two runs that iterate
  it in the same order, as two runs in one interpreter process do, give the same excerpt,
  and so do any two runs when the objective activates at most one selector.
\<close>

theorem excerpt_determined:
  assumes "html_parser rt1 = html_parser rt2"
  shows "(set_iter rt1 (added_selectors (split (lower p))) =
          set_iter rt2 (added_selectors (split (lower p))) \<longrightarrow>
            extract_relevant_html rt1 html p = extract_relevant_html rt2 html p) \<and>
         (iterates_sets rt1 \<and> iterates_sets rt2 \<and>
          length (remdups (added_selectors (split (lower p)))) \<le> 1 \<longrightarrow>
            extract_relevant_html rt1 html p = extract_relevant_html rt2 html p)"
  using extract_order [OF assms] single_selector_order by blast

text \<open>
  C7 (as amended). The context expander never raises. When a parser call raises, it
  returns the whole original document. When the last snippet has no element other than
  \<open>html\<close> and \<open>body\<close>, when its first such element has no text, or when that text is
  found in no string of the full document, it returns the \<open>body\<close> of the full document
  as written by \<open>str\<close>, and the whole original document when the full document has no
  \<open>body\<close> element.
\<close>

theorem expand_falls_back:
  "(\<exists>s. expand_html_context rt full_html last_snippet = Inr s) \<and>
   (html_parser rt full_html = Inl e \<longrightarrow>
      expand_html_context rt full_html last_snippet = Inr full_html) \<and>
   (html_parser rt last_snippet = Inl e \<longrightarrow>
      expand_html_context rt full_html last_snippet = Inr full_html) \<and>
   (html_parser rt full_html = Inr full_doc \<and> html_parser rt last_snippet = Inr snippet_doc \<longrightarrow>
      (first_anchor_of snippet_doc = None \<longrightarrow>
         expand_html_context rt full_html last_snippet =
           Inr (body_or_full (full_doc, []) full_html)) \<and>
      (first_anchor_of snippet_doc = Some a \<and> get_text (fst a) = [] \<longrightarrow>
         expand_html_context rt full_html last_snippet =
           Inr (body_or_full (full_doc, []) full_html)) \<and>
      (first_anchor_of snippet_doc = Some a \<and>
       text_matches (take 15 (split (get_text (fst a)))) (full_doc, []) = [] \<longrightarrow>
         expand_html_context rt full_html last_snippet =
           Inr (body_or_full (full_doc, []) full_html))) \<and>
   (find_named ''body'' (full_doc, []) = Some b \<longrightarrow>
      body_or_full (full_doc, []) full_html = render (fst b)) \<and>
   (find_named ''body'' (full_doc, []) = None \<longrightarrow>
      body_or_full (full_doc, []) full_html = full_html)"
proof (intro conjI impI)
  show "\<exists>s. expand_html_context rt full_html last_snippet = Inr s"
    by (simp add: expand_html_context_def split: sum.split)
  show "expand_html_context rt full_html last_snippet = Inr full_html"
    if "html_parser rt full_html = Inl e"
    using that by (simp add: expand_html_context_def expand_try_def)
  show "expand_html_context rt full_html last_snippet = Inr full_html"
    if "html_parser rt last_snippet = Inl e"
    using that by (simp add: expand_html_context_def expand_try_def split: sum.split)
  show "body_or_full (full_doc, []) full_html = render (fst b)"
    if "find_named ''body'' (full_doc, []) = Some b"
    using that by (simp add: body_or_full_def)
  show "body_or_full (full_doc, []) full_html = full_html"
    if "find_named ''body'' (full_doc, []) = None"
    using that by (simp add: body_or_full_def)
next
  assume p: "html_parser rt full_html = Inr full_doc \<and> html_parser rt last_snippet = Inr snippet_doc"
  show "expand_html_context rt full_html last_snippet = Inr (body_or_full (full_doc, []) full_html)"
    if "first_anchor_of snippet_doc = None"
    using that p by (simp add: expand_html_context_def expand_try_def first_anchor_of_def)
  show "expand_html_context rt full_html last_snippet = Inr (body_or_full (full_doc, []) full_html)"
    if "first_anchor_of snippet_doc = Some a \<and> get_text (fst a) = []"
    using that p by (simp add: expand_html_context_def expand_try_def first_anchor_of_def)
  show "expand_html_context rt full_html last_snippet = Inr (body_or_full (full_doc, []) full_html)"
    if "first_anchor_of snippet_doc = Some a \<and>
        text_matches (take 15 (split (get_text (fst a)))) (full_doc, []) = []"
    using that p by (simp add: expand_html_context_def expand_try_def first_anchor_of_def Let_def)
qed

lemma substitute_filler: "substitute_xml filler = filler"
proof -
  have "substitute_xml (replicate n (CHR ''a'')) = replicate n (CHR ''a'')" for n
    by (induction n) (simp_all add: substitute_xml_def)
  then show ?thesis by (simp add: filler_def)
qed

lemma length_filler: "length filler = 80000"
  by (simp add: filler_def)

lemmas example_pages = shop_page_def first_excerpt_def second_excerpt_def third_excerpt_def
  fragment_def catalogue_def long_page_def

lemma long_parse:
  "html_parser example_runtime long_page =
     Inr (Tag ''[document]'' [] [Tag ''main'' [] [Str Text filler]])"
  by (simp add: example_runtime_def example_parser_def example_pages)

lemma no_words: "split (lower []) = []" "added_selectors [] = []"
  by (simp_all add: str_eval added_selectors_def)

lemma long_parts:
  "output_parts example_runtime
     (stripped_soup (Tag ''[document]'' [] [Tag ''main'' [] [Str Text filler]])) [] =
   [''<main>'' @ filler @ ''</main>'']"
  apply (simp add: stripped_soup_def output_parts_def Let_def no_words)
  apply (simp add: main_selectors_def head_parts_def find_tag_def find_named_def select_def select_one_def
      matches_compound_def ascii_lower_def)
  apply (simp add: render_def attribute_string_def sorted_attrs_def empty_element_tags_def
      output_ready_def substitute_filler)
  done

lemma long_excerpt:
  "extract_relevant_html example_runtime long_page [] =
     take 75000 (''<main>'' @ filler @ ''</main>'') @ truncation_marker"
  by (simp add: extract_relevant_html_def extract_try_def long_parse long_parts
      truncate_combined_def max_len_def length_filler)

lemma fragment_parse:
  "html_parser example_runtime fragment = Inr (Tag ''[document]'' [] [Tag ''p'' [] [Str Text ''hi'']])"
  "html_parser example_runtime [] = Inr (Tag ''[document]'' [] [])"
  by (simp_all add: example_runtime_def example_parser_def example_pages)

lemma fragment_parts:
  "output_parts example_runtime
     (stripped_soup (Tag ''[document]'' [] [Tag ''p'' [] [Str Text ''hi'']])) [] = []"
  apply (simp add: stripped_soup_def output_parts_def Let_def no_words)
  apply (simp add: main_selectors_def head_parts_def find_tag_def find_named_def select_def select_one_def
      matches_compound_def ascii_lower_def classes_of_def)
  done

lemma fragment_excerpt: "extract_relevant_html example_runtime fragment [] = []"
  by (simp add: fragment_parse extract_relevant_html_def extract_try_def fragment_parts
      truncate_combined_def)

text \<open>
  C4 as stated fails twice. The excerpt of \<open>long_page\<close> is longer than 75,000 characters:
  the marker comes after the 75,000 characters kept. The excerpt of \<open>fragment\<close>, a document
  with a \<open>p\<close> element and no \<open>body\<close>, is empty when the objective names no keyword.
\<close>

theorem excerpt_too_long_or_empty:
  "75000 < length (extract_relevant_html example_runtime long_page []) \<and>
   html_parser example_runtime fragment =
     Inr (Tag ''[document]'' [] [Tag ''p'' [] [Str Text ''hi'']]) \<and>
   extract_relevant_html example_runtime fragment [] = []"
  by (simp add: long_excerpt length_filler truncation_marker_def fragment_parse
      fragment_excerpt)

theorem excerpt_bounded_witness:
  "html_parser example_runtime shop_page = Inr shop_doc \<and>
   find_named ''body'' (stripped_soup shop_doc) \<noteq> None \<and>
   extract_relevant_html example_runtime shop_page ''item'' \<noteq> [] \<and>
   html_parser example_runtime long_page =
     Inr (Tag ''[document]'' [] [Tag ''main'' [] [Str Text filler]]) \<and>
   max_len < length (join ''\<newline>\<newline>'' (output_parts example_runtime
       (stripped_soup (Tag ''[document]'' [] [Tag ''main'' [] [Str Text filler]])) [])) \<and>
   extract_relevant_html example_runtime long_page [] =
     take max_len (join ''\<newline>\<newline>'' (output_parts example_runtime
       (stripped_soup (Tag ''[document]'' [] [Tag ''main'' [] [Str Text filler]])) [])) @
     truncation_marker \<and>
   length (join ''\<newline>\<newline>'' (output_parts example_runtime (stripped_soup shop_doc) ''item''))
     \<le> max_len \<and>
   extract_relevant_html example_runtime shop_page ''item'' =
     join ''\<newline>\<newline>'' (output_parts example_runtime (stripped_soup shop_doc) ''item'')"
proof -
  have b: "find_named ''body'' (stripped_soup shop_doc) \<noteq> None"
    by (simp add: shop_stripped shop_find_body)
  have long: "max_len < length (join ''\<newline>\<newline>'' (output_parts example_runtime
       (stripped_soup (Tag ''[document]'' [] [Tag ''main'' [] [Str Text filler]])) []))"
    by (simp add: long_parts max_len_def length_filler)
  have short: "length (join ''\<newline>\<newline>'' (output_parts example_runtime (stripped_soup shop_doc)
       ''item'')) \<le> max_len"
    by (simp add: shop_stripped shop_parts max_len_def second_excerpt_def)
  note shop = excerpt_bounded [of example_runtime shop_page "''item''" shop_doc]
  note long_one = excerpt_bounded [of example_runtime long_page "[]"
      "Tag ''[document]'' [] [Tag ''main'' [] [Str Text filler]]"]
  have ne: "extract_relevant_html example_runtime shop_page ''item'' \<noteq> []"
    using shop shop_parse b by blast
  have eq: "extract_relevant_html example_runtime shop_page ''item'' =
      join ''\<newline>\<newline>'' (output_parts example_runtime (stripped_soup shop_doc) ''item'')"
    using shop shop_parse short by blast
  have cut: "extract_relevant_html example_runtime long_page [] =
     take max_len (join ''\<newline>\<newline>'' (output_parts example_runtime
       (stripped_soup (Tag ''[document]'' [] [Tag ''main'' [] [Str Text filler]])) [])) @
     truncation_marker"
    using long_one long_parse long by blast
  show ?thesis
    by (intro conjI) (rule shop_parse b ne long_parse long cut short eq)+
qed

lemma catalogue_doc:
  "html_parser example_runtime catalogue = Inr (Tag ''[document]'' [] [catalogue_body])"
  by (simp add: example_runtime_def example_parser_def example_pages)

lemma words_list_table: "split (lower ''list table'') = [''list'', ''table'']"
  "split (lower ''table'') = [''table'']"
  by (simp_all add: str_eval)

lemma added_list_table:
  "added_selectors [''list'', ''table''] = [by_tag ''ul'', by_tag ''ol'', by_tag ''table'']"
  "added_selectors [''table''] = [by_tag ''table'']"
  by (simp_all add: added_selectors_def structural_keywords_def)

lemma reversed_fields:
  "html_parser reversed_runtime = html_parser example_runtime"
  "set_iter reversed_runtime = rev \<circ> remdups"
  by (simp_all add: reversed_runtime_def)

lemma catalogue_base:
  "stripped_soup (Tag ''[document]'' [] [catalogue_body]) = (Tag ''[document]'' [] [catalogue_body], [])"
  "first_match main_selectors (Tag ''[document]'' [] [catalogue_body], []) = None"
  "find_named ''body'' (Tag ''[document]'' [] [catalogue_body], []) =
     Some (catalogue_body, [Tag ''[document]'' [] [catalogue_body]])"
  "head_parts (Tag ''[document]'' [] [catalogue_body], []) = []"
  by (simp_all add: stripped_soup_def catalogue_body_def main_selectors_def head_parts_def dom_eval)

lemma catalogue_select:
  "select (by_tag ''ul'') (catalogue_body, [Tag ''[document]'' [] [catalogue_body]]) =
     [(Tag ''ul'' [] [],
       [Tag ''div'' [] [Tag ''ul'' [] []], Tag ''section'' [] [Tag ''div'' [] [Tag ''ul'' [] []]],
        catalogue_body, Tag ''[document]'' [] [catalogue_body]])]"
  "select (by_tag ''ol'') (catalogue_body, [Tag ''[document]'' [] [catalogue_body]]) = []"
  "select (by_tag ''table'') (catalogue_body, [Tag ''[document]'' [] [catalogue_body]]) =
     [(Tag ''table'' [] [],
       [Tag ''div'' [] [Tag ''table'' [] []],
        Tag ''section'' [] [Tag ''div'' [] [Tag ''table'' [] []]],
        catalogue_body, Tag ''[document]'' [] [catalogue_body]])]"
  by (simp_all add: catalogue_body_def dom_eval)

lemma catalogue_render:
  "render (Tag ''section'' [] [Tag ''div'' [] [Tag ''ul'' [] []]]) =
     ''<section><div><ul></ul></div></section>''"
  "render (Tag ''section'' [] [Tag ''div'' [] [Tag ''table'' [] []]]) =
     ''<section><div><table></table></div></section>''"
  "render catalogue_body = catalogue"
  by (simp_all add: catalogue_body_def dom_eval catalogue_def)

lemma catalogue_parts:
  "output_parts example_runtime (Tag ''[document]'' [] [catalogue_body], []) ''list table'' =
     [''<section><div><ul></ul></div></section>'',
      ''<section><div><table></table></div></section>'', catalogue]"
  "output_parts reversed_runtime (Tag ''[document]'' [] [catalogue_body], []) ''list table'' =
     [''<section><div><table></table></div></section>'',
      ''<section><div><ul></ul></div></section>'', catalogue]"
  by (simp_all add: output_parts_def Let_def words_list_table added_list_table set_iter_example
      reversed_fields catalogue_base catalogue_select contextual_element_def catalogue_render
      catalogue_def same_key_def)

text \<open>
  C9 as stated fails: with the objective "list table" the set of active selectors has
  three elements, and two runtimes that iterate it in opposite orders give excerpts of
  \<open>catalogue\<close> whose parts come in different orders.
\<close>

theorem excerpt_depends_on_set_order:
  "html_parser reversed_runtime = html_parser example_runtime \<and>
   iterates_sets example_runtime \<and> iterates_sets reversed_runtime \<and>
   extract_relevant_html example_runtime catalogue ''list table'' \<noteq>
   extract_relevant_html reversed_runtime catalogue ''list table''"
proof -
  have a: "extract_relevant_html example_runtime catalogue ''list table'' =
      ''<section><div><ul></ul></div></section>\<newline>\<newline><section><div><table></table></div></section>\<newline>\<newline>'' @ catalogue"
    by (simp add: extract_relevant_html_def extract_try_def catalogue_doc
        catalogue_base catalogue_parts truncate_combined_def)
      (simp add: max_len_def catalogue_def)
  have b: "extract_relevant_html reversed_runtime catalogue ''list table'' =
      ''<section><div><table></table></div></section>\<newline>\<newline><section><div><ul></ul></div></section>\<newline>\<newline>'' @ catalogue"
    by (simp add: extract_relevant_html_def extract_try_def reversed_fields catalogue_doc
        catalogue_base catalogue_parts truncate_combined_def)
      (simp add: max_len_def catalogue_def)
  have c: "iterates_sets example_runtime" "iterates_sets reversed_runtime"
    by (simp_all add: iterates_sets_def set_iter_example reversed_fields)
  show ?thesis by (simp add: a b c reversed_fields)
qed

theorem excerpt_determined_witness:
  "html_parser example_runtime = html_parser reversed_runtime \<and>
   iterates_sets example_runtime \<and> iterates_sets reversed_runtime \<and>
   length (remdups (added_selectors (split (lower ''table'')))) \<le> 1 \<and>
   set_iter example_runtime (added_selectors (split (lower ''table''))) =
     set_iter reversed_runtime (added_selectors (split (lower ''table''))) \<and>
   extract_relevant_html example_runtime catalogue ''table'' =
     extract_relevant_html reversed_runtime catalogue ''table''"
proof -
  have p: "html_parser example_runtime = html_parser reversed_runtime"
    by (simp add: reversed_fields)
  have c: "iterates_sets example_runtime" "iterates_sets reversed_runtime"
    by (simp_all add: iterates_sets_def set_iter_example reversed_fields)
  have one: "length (remdups (added_selectors (split (lower ''table'')))) \<le> 1"
    by (simp add: words_list_table added_list_table)
  have same: "set_iter example_runtime (added_selectors (split (lower ''table''))) =
     set_iter reversed_runtime (added_selectors (split (lower ''table'')))"
    by (simp add: words_list_table added_list_table set_iter_example reversed_fields)
  have "extract_relevant_html example_runtime catalogue ''table'' =
     extract_relevant_html reversed_runtime catalogue ''table''"
    using excerpt_determined [OF p, of "''table''" catalogue] c one by blast
  then show ?thesis using p c one same by blast
qed

lemma rejected: "html_parser example_runtime rejected_markup =
    Inl (Raised OtherException
      ''The markup you provided was rejected by the parser. Trying a different parser or a different encoding may help.'')"
  by (simp add: example_runtime_def example_parser_def example_pages rejected_markup_def)

lemma fragment_no_body:
  "find_named ''body'' (Tag ''[document]'' [] [Tag ''p'' [] [Str Text ''hi'']], []) = None"
  by (simp add: dom_eval)

lemma empty_anchor: "first_anchor_of (Tag ''[document]'' [] []) = None"
  by (simp add: first_anchor_of_def find_tag_def)

lemma catalogue_anchor:
  "first_anchor_of (Tag ''[document]'' [] [catalogue_body]) =
     Some (Tag ''section'' [] [Tag ''div'' [] [Tag ''ul'' [] []]],
           [catalogue_body, Tag ''[document]'' [] [catalogue_body]])"
  "get_text (Tag ''section'' [] [Tag ''div'' [] [Tag ''ul'' [] []]]) = []"
  by (simp_all add: first_anchor_of_def find_tag_def catalogue_body_def get_text_def
      interesting_string_types_def)

lemma fragment_anchor:
  "first_anchor_of (Tag ''[document]'' [] [Tag ''p'' [] [Str Text ''hi'']]) =
     Some (Tag ''p'' [] [Str Text ''hi''], [Tag ''[document]'' [] [Tag ''p'' [] [Str Text ''hi'']]])"
  "get_text (Tag ''p'' [] [Str Text ''hi'']) = ''hi''"
  "text_matches (take 15 (split ''hi'')) (shop_doc, []) = []"
  by (simp_all add: first_anchor_of_def find_tag_def get_text_def interesting_string_types_def
      str_eval text_matches_def shop_eval)

text \<open>
  C7 as stated fails on a document without a \<open>body\<close> element: for \<open>fragment\<close> and an
  empty last snippet no anchor is found, and what is returned is the original text of the
  document, there being no body to return.
\<close>

theorem expansion_without_body:
  "html_parser example_runtime fragment =
     Inr (Tag ''[document]'' [] [Tag ''p'' [] [Str Text ''hi'']]) \<and>
   html_parser example_runtime [] = Inr (Tag ''[document]'' [] []) \<and>
   first_anchor_of (Tag ''[document]'' [] []) = None \<and>
   find_named ''body'' (Tag ''[document]'' [] [Tag ''p'' [] [Str Text ''hi'']], []) = None \<and>
   expand_html_context example_runtime fragment [] = Inr fragment"
  by (simp add: fragment_parse empty_anchor fragment_no_body expand_html_context_def
      expand_try_def first_anchor_of_def [symmetric] body_or_full_def)

theorem expand_falls_back_witness:
  "html_parser example_runtime rejected_markup =
     Inl (Raised OtherException
       ''The markup you provided was rejected by the parser. Trying a different parser or a different encoding may help.'') \<and>
   expand_html_context example_runtime rejected_markup first_excerpt = Inr rejected_markup \<and>
   expand_html_context example_runtime shop_page rejected_markup = Inr shop_page \<and>
   first_anchor_of (Tag ''[document]'' [] []) = None \<and>
   expand_html_context example_runtime shop_page [] = Inr second_excerpt \<and>
   get_text (Tag ''section'' [] [Tag ''div'' [] [Tag ''ul'' [] []]]) = [] \<and>
   expand_html_context example_runtime shop_page catalogue = Inr second_excerpt \<and>
   text_matches (take 15 (split ''hi'')) (shop_doc, []) = [] \<and>
   expand_html_context example_runtime shop_page fragment = Inr second_excerpt \<and>
   find_named ''body'' (shop_doc, []) =
     Some (shop_body, [Tag ''html'' [] [shop_body], shop_doc]) \<and>
   find_named ''body'' (Tag ''[document]'' [] [Tag ''p'' [] [Str Text ''hi'']], []) = None \<and>
   body_or_full (Tag ''[document]'' [] [Tag ''p'' [] [Str Text ''hi'']], []) fragment = fragment"
proof -
  let ?e = "Raised OtherException
       ''The markup you provided was rejected by the parser. Trying a different parser or a different encoding may help.''"
  note a = expand_falls_back [of example_runtime rejected_markup first_excerpt ?e]
  note b = expand_falls_back [of example_runtime shop_page rejected_markup ?e]
  note c = expand_falls_back [of example_runtime shop_page "[]" _ shop_doc
      "Tag ''[document]'' [] []" _ "(shop_body, [Tag ''html'' [] [shop_body], shop_doc])"]
  note d = expand_falls_back [of example_runtime shop_page catalogue _ shop_doc
      "Tag ''[document]'' [] [catalogue_body]"
      "(Tag ''section'' [] [Tag ''div'' [] [Tag ''ul'' [] []]],
           [catalogue_body, Tag ''[document]'' [] [catalogue_body]])"]
  note f = expand_falls_back [of example_runtime shop_page fragment _ shop_doc
      "Tag ''[document]'' [] [Tag ''p'' [] [Str Text ''hi'']]"
      "(Tag ''p'' [] [Str Text ''hi''], [Tag ''[document]'' [] [Tag ''p'' [] [Str Text ''hi'']]])"]
  note g = expand_falls_back [of example_runtime fragment "[]" _
      "Tag ''[document]'' [] [Tag ''p'' [] [Str Text ''hi'']]"]
  have body: "body_or_full (shop_doc, []) shop_page = second_excerpt"
    by (rule shop_body_or_full)
  have 1: "expand_html_context example_runtime rejected_markup first_excerpt = Inr rejected_markup"
    using a rejected by blast
  have 2: "expand_html_context example_runtime shop_page rejected_markup = Inr shop_page"
    using b rejected by blast
  have 3: "expand_html_context example_runtime shop_page [] = Inr second_excerpt"
    using c shop_parse fragment_parse(2) empty_anchor body by metis
  have 4: "expand_html_context example_runtime shop_page catalogue = Inr second_excerpt"
    using d shop_parse catalogue_doc catalogue_anchor body by (metis fst_conv)
  have 5: "expand_html_context example_runtime shop_page fragment = Inr second_excerpt"
    using f shop_parse fragment_parse(1) fragment_anchor body by (metis fst_conv)
  have 6: "body_or_full (Tag ''[document]'' [] [Tag ''p'' [] [Str Text ''hi'']], []) fragment = fragment"
    using g fragment_no_body by blast
  show ?thesis
    by (intro conjI)
      (rule rejected 1 2 3 4 5 6 empty_anchor catalogue_anchor fragment_anchor shop_find_body
        fragment_no_body)+
qed

end
